theory Spec2Isabelle
  imports Main "HOL-Library.Multiset"
begin

section \<open>Values of the wire protocol\<close>

text \<open>
  The server of \<^verbatim>\<open>src/server/websocket.ts\<close> reads the fields of a parsed JSON frame.
  A string-valued field that may be absent is a \<open>jstr\<close>: \<open>None\<close> is JavaScript's
  \<^verbatim>\<open>undefined\<close> (or \<^verbatim>\<open>null\<close>), \<open>Some s\<close> the string \<open>s\<close>. Frames are typed as the
  interfaces of the source declare them (\<^verbatim>\<open>IncomingAttachment\<close>, \<^verbatim>\<open>ExtendedWebSocket\<close>,
  the destructuring patterns of each case); a frame whose fields have other JSON types
  is outside this model. The legacy numeric id is an integer. Dates are natural numbers
  (milliseconds), and one handler invocation reads the clock once (\<open>now\<close>).
\<close>

type_synonym jstr = "string option"

type_synonym conn = nat

definition truthy :: "jstr \<Rightarrow> bool" where
  "truthy v = (case v of None \<Rightarrow> False | Some s \<Rightarrow> s \<noteq> [])"

definition truthy_num :: "int option \<Rightarrow> bool" where
  "truthy_num v = (case v of None \<Rightarrow> False | Some n \<Rightarrow> n \<noteq> 0)"

text \<open>\<^verbatim>\<open>a || d\<close> for a string field \<open>a\<close> and a string default \<open>d\<close>.\<close>

definition or_default :: "jstr \<Rightarrow> string \<Rightarrow> string" where
  "or_default v d = (case v of None \<Rightarrow> d | Some s \<Rightarrow> (if s = [] then d else s))"

text \<open>A template literal \<^verbatim>\<open>`${v}`\<close>: an absent value prints as \<^verbatim>\<open>undefined\<close>.\<close>

definition template :: "jstr \<Rightarrow> string" where
  "template v = (case v of None \<Rightarrow> ''undefined'' | Some s \<Rightarrow> s)"

text \<open>\<^verbatim>\<open>Number.prototype.toString\<close> on an integer: its decimal digits.\<close>

function digits :: "nat \<Rightarrow> string" where
  "digits n = (if n < 10 then [char_of (48 + n)]
               else digits (n div 10) @ [char_of (48 + n mod 10)])"
  by pat_completeness auto
termination
  by (relation "measure (\<lambda>n. n)") auto

declare digits.simps [simp del]

definition toString :: "int \<Rightarrow> string" where
  "toString i = (if i < 0 then CHR ''-'' # digits (nat (- i)) else digits (nat i))"

section \<open>Data model\<close>

text \<open>The properties the server keeps on each socket (\<^verbatim>\<open>ExtendedWebSocket\<close>), and
  whether its \<^verbatim>\<open>readyState\<close> is \<^verbatim>\<open>OPEN\<close>.\<close>

record socket =
  ws_userId :: "int option"
  ws_empId :: jstr
  ws_username :: jstr
  ws_channelId :: jstr
  ws_isAlive :: bool
  readyOpen :: bool

record incoming_attachment =
  in_type :: jstr
  in_url :: string
  in_name :: jstr
  in_size :: "nat option"
  in_mimeType :: jstr
  in_thumbnailUrl :: jstr

record attachment =
  att_type :: string
  att_url :: string
  att_name :: string
  att_size :: "nat option"
  att_mimeType :: jstr
  att_thumbnailUrl :: jstr

record chat_message =
  cm_type :: string
  cm_channelId :: jstr
  cm_senderId :: string
  cm_senderName :: string
  cm_content :: jstr
  cm_timestamp :: nat
  cm_attachments :: "attachment list option"

record system_message =
  sy_channelId :: jstr
  sy_content :: string
  sy_timestamp :: nat

record status_update_message =
  su_patientId :: jstr
  su_status :: jstr
  su_createdBy :: string
  su_createdByName :: string
  su_location :: jstr
  su_details :: jstr
  su_timestamp :: nat

record call_message =
  cs_channelId :: jstr
  cs_callerId :: string
  cs_callerName :: string
  cs_callType :: jstr
  cs_action :: jstr

record call_invitation =
  ci_channelId :: jstr
  ci_callType :: jstr
  ci_inviterId :: string
  ci_inviterName :: string
  ci_timestamp :: nat

record call_response =
  cr_channelId :: jstr
  cr_callType :: jstr
  cr_responderId :: string
  cr_responderName :: string
  cr_response :: jstr
  cr_timestamp :: nat

datatype tstamp = ClientTime string | ServerTime nat

record presence =
  pr_empId :: jstr
  pr_username :: jstr
  pr_status :: jstr
  pr_inCall :: "bool option"
  pr_timestamp :: tstamp
  pr_lastSeen :: "nat option"

text \<open>Documents of the \<^verbatim>\<open>messages\<close> and \<^verbatim>\<open>statusUpdates\<close> collections.\<close>

record stored_message =
  sm_id :: nat
  sm_type :: string
  sm_channelId :: jstr
  sm_senderId :: jstr
  sm_content :: jstr
  sm_attachments :: "attachment list option"
  sm_createdAt :: nat

record message_input =
  mi_type :: jstr
  mi_senderId :: jstr
  mi_content :: jstr
  mi_attachments :: "attachment list option"

record stored_status =
  ss_id :: nat
  ss_patientId :: jstr
  ss_status :: jstr
  ss_createdBy :: jstr
  ss_location :: jstr
  ss_details :: jstr
  ss_createdAt :: nat

record status_input =
  si_patientId :: jstr
  si_status :: jstr
  si_createdBy :: jstr
  si_location :: jstr
  si_details :: jstr

datatype frame =
    Welcome nat
  | Pong nat
  | History "stored_message list"
  | StatusUpdates "stored_status list"
  | System system_message
  | Chat chat_message
  | StatusUpdateMsg status_update_message
  | UserStatus presence
  | CallInvitationMsg call_invitation
  | CallInvitationResponseMsg call_response
  | CallSignalMsg call_message

text \<open>What a handler does to the outside, in the order it does it: a call of
  \<^verbatim>\<open>send\<close>, \<^verbatim>\<open>ping\<close> or \<^verbatim>\<open>terminate\<close> on a socket, and an awaited write to the store
  with the value it returned (\<open>None\<close> is the \<^verbatim>\<open>null\<close> the store returns on failure).\<close>

datatype effect =
    Sent conn frame
  | Pinged conn
  | Terminated conn
  | AddedMessage "stored_message option"
  | AddedStatus "stored_status option"

section \<open>The persistence collaborator (\<^verbatim>\<open>MemStorage\<close>)\<close>

text \<open>
  Every method of \<^verbatim>\<open>MemStorage\<close> wraps its body in \<^verbatim>\<open>try\<close>/\<^verbatim>\<open>catch\<close> and returns a
  sentinel (\<^verbatim>\<open>null\<close> or \<^verbatim>\<open>[]\<close>) when the database throws. Whether a call throws is
  not decided by the program: the store carries a schedule \<open>faults\<close> of the outcomes of
  the coming calls (\<open>True\<close>: the call throws; an empty schedule: no call throws), and
  each call takes the head of the schedule.
\<close>

record db =
  messages :: "stored_message list"
  statusUpdates :: "stored_status list"
  patients :: "string list"
  channelDocs :: "(string \<times> string) list"
  nextId :: nat
  faults :: "bool list"

definition db_fails :: "db \<Rightarrow> bool" where
  "db_fails d = (case faults d of [] \<Rightarrow> False | f # _ \<Rightarrow> f)"

definition db_tick :: "db \<Rightarrow> db" where
  "db_tick d = d\<lparr>faults := (case faults d of [] \<Rightarrow> [] | _ # fs \<Rightarrow> fs)\<rparr>"

definition addMessageToChannel ::
  "nat \<Rightarrow> jstr \<Rightarrow> message_input \<Rightarrow> db \<Rightarrow> stored_message option \<times> db" where
  "addMessageToChannel now channelId message d =
     (if db_fails d then (None, db_tick d)
      else
        let hasAttachments =
              (case mi_attachments message of None \<Rightarrow> False | Some as \<Rightarrow> 0 < length as);
            newMessage = \<lparr>sm_id = nextId d,
                          sm_type = (if hasAttachments then ''attachment''
                                     else or_default (mi_type message) ''text''),
                          sm_channelId = channelId,
                          sm_senderId = mi_senderId message,
                          sm_content = mi_content message,
                          sm_attachments = mi_attachments message,
                          sm_createdAt = now\<rparr>
        in (Some newMessage,
            (db_tick d)\<lparr>messages := messages d @ [newMessage], nextId := Suc (nextId d)\<rparr>))"

text \<open>\<^verbatim>\<open>find({ channelId }).sort({ createdAt: 1 })\<close>: the documents of the channel,
  oldest first.\<close>

definition getChannelMessages :: "jstr \<Rightarrow> db \<Rightarrow> stored_message list \<times> db" where
  "getChannelMessages channelId d =
     (if db_fails d then ([], db_tick d)
      else (sort_key sm_createdAt (filter (\<lambda>m. sm_channelId m = channelId) (messages d)),
            db_tick d))"

text \<open>\<^verbatim>\<open>find({ patientId }).sort({ createdAt: -1 })\<close>: newest first.\<close>

definition getStatusUpdates :: "jstr \<Rightarrow> db \<Rightarrow> stored_status list \<times> db" where
  "getStatusUpdates patientId d =
     (if db_fails d then ([], db_tick d)
      else (rev (sort_key ss_createdAt
                   (filter (\<lambda>u. ss_patientId u = patientId) (statusUpdates d))),
            db_tick d))"

text \<open>\<^verbatim>\<open>new ObjectId(id)\<close> belongs to the database driver: it accepts a string of 24
  hexadecimal digits and throws on any other string. An accepted string stands for the
  twelve bytes it spells, written here in lower case.\<close>

definition hex_lower :: "char \<Rightarrow> char option" where
  "hex_lower ch = map_of (zip ''0123456789abcdefABCDEF'' ''0123456789abcdefabcdef'') ch"

definition objectId :: "string \<Rightarrow> string option" where
  "objectId i =
     (if length i = 24 \<and> list_all (\<lambda>ch. hex_lower ch \<noteq> None) i
      then Some (map (\<lambda>ch. case hex_lower ch of None \<Rightarrow> ch | Some l \<Rightarrow> l) i)
      else None)"

text \<open>\<^verbatim>\<open>findOne({ _id: new ObjectId(id) })\<close> inside \<^verbatim>\<open>try\<close>: whether a patient document has
  this id (\<open>patients\<close> lists the ids in lower case). When the constructor throws, the
  method returns \<^verbatim>\<open>null\<close>; for an absent id the constructor makes a fresh id, which no
  document has.\<close>

definition getPatientById :: "jstr \<Rightarrow> db \<Rightarrow> bool \<times> db" where
  "getPatientById ident d =
     (if db_fails d then (False, db_tick d)
      else ((case ident of
               None \<Rightarrow> False
             | Some i \<Rightarrow> (case objectId i of
                            None \<Rightarrow> False
                          | Some oid \<Rightarrow> oid \<in> set (patients d))),
            db_tick d))"

definition addStatusUpdate :: "nat \<Rightarrow> status_input \<Rightarrow> db \<Rightarrow> stored_status option \<times> db" where
  "addStatusUpdate now statusUpdate d =
     (if db_fails d then (None, db_tick d)
      else
        let newStatusUpdate = \<lparr>ss_id = nextId d,
                               ss_patientId = si_patientId statusUpdate,
                               ss_status = si_status statusUpdate,
                               ss_createdBy = si_createdBy statusUpdate,
                               ss_location = si_location statusUpdate,
                               ss_details = si_details statusUpdate,
                               ss_createdAt = now\<rparr>
        in (Some newStatusUpdate,
            (db_tick d)\<lparr>statusUpdates := statusUpdates d @ [newStatusUpdate],
                         nextId := Suc (nextId d)\<rparr>))"

text \<open>\<^verbatim>\<open>channelsCollection.findOne({ patientId })\<close>: the \<^verbatim>\<open>_id\<close> of the first channel
  document of the patient.\<close>

definition getChannelByPatientId :: "jstr \<Rightarrow> db \<Rightarrow> string option \<times> db" where
  "getChannelByPatientId patientId d =
     (if db_fails d then (None, db_tick d)
      else ((case patientId of None \<Rightarrow> None | Some p \<Rightarrow> map_of (channelDocs d) p), db_tick d))"

section \<open>Server state\<close>

text \<open>
  \<open>clients\<close> is \<^verbatim>\<open>wss.clients\<close> in insertion order, \<open>socks\<close> the socket objects
  (an object outlives its registration: the member arrays keep references), \<open>channels\<close>
  the map \<^verbatim>\<open>channels\<close> from a channel id to its member array (the key of a frame
  without \<^verbatim>\<open>channelId\<close> is \<^verbatim>\<open>undefined\<close>, which a \<^verbatim>\<open>Map\<close> accepts), and \<open>trace\<close> the
  effects so far, oldest first. A handler runs to its end before the next event is
  handled.
\<close>

record server =
  clients :: "conn list"
  socks :: "conn \<Rightarrow> socket"
  channels :: "jstr \<Rightarrow> conn list option"
  store :: db
  trace :: "effect list"
  nextConn :: conn

text \<open>\<^verbatim>\<open>channels.get(channelId) || []\<close>\<close>

definition members :: "server \<Rightarrow> jstr \<Rightarrow> conn list" where
  "members s channelId = (case channels s channelId of None \<Rightarrow> [] | Some l \<Rightarrow> l)"

definition is_open :: "server \<Rightarrow> conn \<Rightarrow> bool" where
  "is_open s c = readyOpen (socks s c)"

definition broadcast :: "jstr \<Rightarrow> frame \<Rightarrow> server \<Rightarrow> server" where
  "broadcast channelId data s =
     s\<lparr>trace := trace s @ map (\<lambda>c. Sent c data) (filter (is_open s) (members s channelId))\<rparr>"

text \<open>\<^verbatim>\<open>wss.clients.forEach(client => { if (client.readyState === OPEN) client.send(..) })\<close>\<close>

definition send_all :: "frame \<Rightarrow> server \<Rightarrow> server" where
  "send_all data s =
     s\<lparr>trace := trace s @ map (\<lambda>c. Sent c data) (filter (is_open s) (clients s))\<rparr>"

text \<open>A call of \<^verbatim>\<open>storage.addMessageToChannel\<close> and the value it resolves to. The
  \<^verbatim>\<open>join\<close> and chat cases await it; the \<^verbatim>\<open>close\<close> listener starts it last and does not.\<close>

definition store_message :: "nat \<Rightarrow> jstr \<Rightarrow> message_input \<Rightarrow> server \<Rightarrow> server" where
  "store_message now channelId message s =
     (let r = addMessageToChannel now channelId message (store s)
      in s\<lparr>store := snd r, trace := trace s @ [AddedMessage (fst r)]\<rparr>)"

subsection \<open>Identity of a socket\<close>

text \<open>\<^verbatim>\<open>!(!ws.empId && !ws.userId)\<close>\<close>

definition has_identity :: "socket \<Rightarrow> bool" where
  "has_identity w = (truthy (ws_empId w) \<or> truthy_num (ws_userId w))"

text \<open>\<^verbatim>\<open>ws.empId || (ws.userId ? ws.userId.toString() : '0')\<close>\<close>

definition identity_str :: "socket \<Rightarrow> string" where
  "identity_str w =
     or_default (ws_empId w)
       (case ws_userId w of None \<Rightarrow> ''0'' | Some n \<Rightarrow> (if n \<noteq> 0 then toString n else ''0''))"

text \<open>\<^verbatim>\<open>ws.empId || ws.userId?.toString()\<close>\<close>

definition sender_opt :: "socket \<Rightarrow> jstr" where
  "sender_opt w = (if truthy (ws_empId w) then ws_empId w else map_option toString (ws_userId w))"

text \<open>The test of the two identity scans:
  \<^verbatim>\<open>(clientEmpId && clientEmpId === id) || (clientIdStr && clientIdStr === id.toString())\<close>
  with \<^verbatim>\<open>clientIdStr = client.userId?.toString()\<close>.\<close>

definition id_matches :: "socket \<Rightarrow> string \<Rightarrow> bool" where
  "id_matches w ident =
     ((truthy (ws_empId w) \<and> ws_empId w = Some ident) \<or>
      (truthy (map_option toString (ws_userId w)) \<and> map_option toString (ws_userId w) = Some ident))"

text \<open>The scan assigns every match to the same variable: the last match stays.\<close>

definition find_client :: "server \<Rightarrow> string \<Rightarrow> conn option" where
  "find_client s ident =
     fold (\<lambda>client found. if is_open s client \<and> id_matches (socks s client) ident
                            then Some client else found)
          (clients s) None"

section \<open>Liveness monitor\<close>

text \<open>\<^verbatim>\<open>ws.terminate()\<close> leaves \<^verbatim>\<open>OPEN\<close> at once; the socket's \<^verbatim>\<open>close\<close> event comes later,
  as an event of its own.\<close>

definition heartbeat_one :: "conn \<Rightarrow> server \<Rightarrow> server" where
  "heartbeat_one c s =
     (if \<not> ws_isAlive (socks s c)
      then s\<lparr>socks := (socks s)(c := (socks s c)\<lparr>readyOpen := False\<rparr>),
             trace := trace s @ [Terminated c]\<rparr>
      else s\<lparr>socks := (socks s)(c := (socks s c)\<lparr>ws_isAlive := False\<rparr>),
             trace := trace s @ [Pinged c]\<rparr>)"

definition heartbeat :: "server \<Rightarrow> server" where
  "heartbeat s = fold heartbeat_one (clients s) s"

text \<open>\<^verbatim>\<open>setInterval(heartbeat, 30000)\<close>\<close>

definition heartbeat_interval :: nat where
  "heartbeat_interval = 30000"

definition on_pong :: "conn \<Rightarrow> server \<Rightarrow> server" where
  "on_pong c s = s\<lparr>socks := (socks s)(c := (socks s c)\<lparr>ws_isAlive := True\<rparr>)\<rparr>"

section \<open>Connection and disconnection\<close>

definition new_socket :: socket where
  "new_socket = \<lparr>ws_userId = None, ws_empId = None, ws_username = None,
                 ws_channelId = None, ws_isAlive = True, readyOpen = True\<rparr>"

text \<open>The two \<^verbatim>\<open>connection\<close> listeners: the first sends \<^verbatim>\<open>welcome\<close>, the second sets
  \<^verbatim>\<open>isAlive\<close>. The library has added the socket to \<^verbatim>\<open>wss.clients\<close>.\<close>

definition on_connection :: "nat \<Rightarrow> server \<Rightarrow> server" where
  "on_connection now s =
     (let c = nextConn s
      in s\<lparr>clients := clients s @ [c],
           socks := (socks s)(c := new_socket),
           nextConn := Suc c,
           trace := trace s @ [Sent c (Welcome now)]\<rparr>)"

definition offline_presence :: "nat \<Rightarrow> socket \<Rightarrow> presence" where
  "offline_presence now w =
     \<lparr>pr_empId = Some (identity_str w),
      pr_username = Some (or_default (ws_username w) ''Unknown User''),
      pr_status = Some ''offline'',
      pr_inCall = Some False,
      pr_timestamp = ServerTime now,
      pr_lastSeen = Some now\<rparr>"

definition leave_message :: "nat \<Rightarrow> socket \<Rightarrow> system_message" where
  "leave_message now w =
     \<lparr>sy_channelId = ws_channelId w,
      sy_content = template (ws_username w) @ '' has left the channel'',
      sy_timestamp = now\<rparr>"

text \<open>What the library has done when the socket's \<^verbatim>\<open>close\<close> listeners run: the socket
  is \<^verbatim>\<open>CLOSED\<close> and no longer in \<^verbatim>\<open>wss.clients\<close>.\<close>

definition unregistered :: "conn \<Rightarrow> server \<Rightarrow> server" where
  "unregistered c s =
     s\<lparr>clients := removeAll c (clients s),
       socks := (socks s)(c := (socks s c)\<lparr>readyOpen := False\<rparr>)\<rparr>"

text \<open>\<^verbatim>\<open>const index = clients.indexOf(ws); if (index !== -1) clients.splice(index, 1)\<close>
  on \<^verbatim>\<open>channels.get(ws.channelId) || []\<close>: the first entry of the socket goes.\<close>

definition leave_channel :: "conn \<Rightarrow> jstr \<Rightarrow> server \<Rightarrow> server" where
  "leave_channel c channelId s =
     s\<lparr>channels := (case channels s channelId of
                       None \<Rightarrow> channels s
                     | Some l \<Rightarrow> (channels s)(channelId \<mapsto> remove1 c l))\<rparr>"

text \<open>The \<^verbatim>\<open>close\<close> listener of the router.\<close>

definition close_listener :: "nat \<Rightarrow> conn \<Rightarrow> server \<Rightarrow> server" where
  "close_listener now c s =
     (let w = socks s c;
          s1 = (if has_identity w then send_all (UserStatus (offline_presence now w)) s else s)
      in if truthy (ws_channelId w) \<and> truthy (ws_username w)
         then store_message now (ws_channelId w)
                \<lparr>mi_type = Some ''system'', mi_senderId = sender_opt w,
                 mi_content = Some (template (ws_username w) @ '' has left the channel''),
                 mi_attachments = None\<rparr>
                (broadcast (ws_channelId w) (System (leave_message now w))
                   (leave_channel c (ws_channelId w) s1))
         else s1)"

definition on_close :: "nat \<Rightarrow> conn \<Rightarrow> server \<Rightarrow> server" where
  "on_close now c s = close_listener now c (unregistered c s)"

section \<open>The message router\<close>

datatype chat_kind = KMessage | KAttachment

text \<open>The inbound frames, by their \<^verbatim>\<open>type\<close>, with the fields each case reads.
  \<open>OtherType\<close> is a frame whose \<^verbatim>\<open>type\<close> no case of the \<^verbatim>\<open>switch\<close> names.\<close>

datatype inbound =
    Auth jstr "int option" jstr
  | Join jstr jstr jstr
  | ChatIn chat_kind jstr jstr "incoming_attachment list option"
  | StatusUpdateIn jstr jstr jstr jstr
  | CallInvitationResponseIn jstr jstr jstr jstr jstr jstr
  | CallInvitationIn jstr jstr jstr jstr jstr
  | UserStatusIn jstr "bool option" jstr
  | CallSignalIn jstr jstr jstr "string list option"
  | TestPing
  | OtherType

subsection \<open>\<^verbatim>\<open>auth\<close>\<close>

definition online_presence :: "nat \<Rightarrow> socket \<Rightarrow> presence" where
  "online_presence now w =
     \<lparr>pr_empId = ws_empId w, pr_username = ws_username w, pr_status = Some ''online'',
      pr_inCall = Some False, pr_timestamp = ServerTime now, pr_lastSeen = None\<rparr>"

definition bind_identity :: "jstr \<Rightarrow> int option \<Rightarrow> jstr \<Rightarrow> socket \<Rightarrow> socket" where
  "bind_identity e u n w =
     w\<lparr>ws_empId := e, ws_userId := (if truthy_num u then u else None), ws_username := n\<rparr>"

definition on_auth :: "nat \<Rightarrow> conn \<Rightarrow> jstr \<Rightarrow> int option \<Rightarrow> jstr \<Rightarrow> server \<Rightarrow> server" where
  "on_auth now c e u n s =
     (let s1 = s\<lparr>socks := (socks s)(c := bind_identity e u n (socks s c))\<rparr>
      in if truthy (ws_empId (socks s1 c))
         then send_all (UserStatus (online_presence now (socks s1 c))) s1
         else s1)"

subsection \<open>\<^verbatim>\<open>join\<close>\<close>

definition join_message :: "nat \<Rightarrow> jstr \<Rightarrow> jstr \<Rightarrow> system_message" where
  "join_message now channelId uname =
     \<lparr>sy_channelId = channelId,
      sy_content = template uname @ '' has joined the channel'',
      sy_timestamp = now\<rparr>"

text \<open>The synchronous start of the case: the socket's channel is overwritten and the
  socket is pushed on the channel's member array.\<close>

definition subscribe :: "conn \<Rightarrow> jstr \<Rightarrow> server \<Rightarrow> server" where
  "subscribe c channelId s =
     s\<lparr>socks := (socks s)(c := (socks s c)\<lparr>ws_channelId := channelId\<rparr>),
       channels := (channels s)(channelId \<mapsto> members s channelId @ [c])\<rparr>"

definition send_history :: "conn \<Rightarrow> jstr \<Rightarrow> server \<Rightarrow> server" where
  "send_history c channelId s =
     (let r = getChannelMessages channelId (store s)
      in s\<lparr>store := snd r, trace := trace s @ [Sent c (History (fst r))]\<rparr>)"

definition send_status_updates :: "conn \<Rightarrow> jstr \<Rightarrow> server \<Rightarrow> server" where
  "send_status_updates c patientId s =
     (let p = getPatientById patientId (store s)
      in if fst p
         then let r = getStatusUpdates patientId (snd p)
              in s\<lparr>store := snd r, trace := trace s @ [Sent c (StatusUpdates (fst r))]\<rparr>
         else s\<lparr>store := snd p\<rparr>)"

definition on_join :: "nat \<Rightarrow> conn \<Rightarrow> jstr \<Rightarrow> jstr \<Rightarrow> jstr \<Rightarrow> server \<Rightarrow> server" where
  "on_join now c channelId patientId uname s =
     (let s1 = subscribe c channelId s;
          s2 = send_history c channelId s1;
          s3 = send_status_updates c patientId s2;
          s4 = broadcast channelId (System (join_message now channelId uname)) s3
      in store_message now channelId
           \<lparr>mi_type = Some ''system'', mi_senderId = sender_opt (socks s4 c),
            mi_content = Some (template uname @ '' has joined the channel''),
            mi_attachments = None\<rparr> s4)"

subsection \<open>\<^verbatim>\<open>message\<close> and \<^verbatim>\<open>attachment\<close>\<close>

definition formatAttachment :: "incoming_attachment \<Rightarrow> attachment" where
  "formatAttachment att =
     \<lparr>att_type = or_default (in_type att) ''image'',
      att_url = in_url att,
      att_name = or_default (in_name att) ''file'',
      att_size = in_size att,
      att_mimeType = in_mimeType att,
      att_thumbnailUrl = in_thumbnailUrl att\<rparr>"

text \<open>\<^verbatim>\<open>attachments && attachments.length > 0\<close>\<close>

definition has_attachments :: "'a list option \<Rightarrow> bool" where
  "has_attachments attachments = (case attachments of None \<Rightarrow> False | Some as \<Rightarrow> 0 < length as)"

definition formattedAttachments :: "incoming_attachment list option \<Rightarrow> attachment list option" where
  "formattedAttachments attachments =
     (if has_attachments attachments then map_option (map formatAttachment) attachments else None)"

definition isAttachment :: "chat_kind \<Rightarrow> incoming_attachment list option \<Rightarrow> bool" where
  "isAttachment kind attachments = (kind = KAttachment \<or> has_attachments attachments)"

definition chatMessage ::
  "nat \<Rightarrow> socket \<Rightarrow> chat_kind \<Rightarrow> jstr \<Rightarrow> jstr \<Rightarrow> incoming_attachment list option \<Rightarrow> chat_message" where
  "chatMessage now w kind channelId content attachments =
     \<lparr>cm_type = (if isAttachment kind attachments then ''attachment'' else ''message''),
      cm_channelId = channelId,
      cm_senderId = identity_str w,
      cm_senderName = or_default (ws_username w) ''Unknown User'',
      cm_content = content,
      cm_timestamp = now,
      cm_attachments = formattedAttachments attachments\<rparr>"

definition chat_input ::
  "socket \<Rightarrow> chat_kind \<Rightarrow> jstr \<Rightarrow> incoming_attachment list option \<Rightarrow> message_input" where
  "chat_input w kind content attachments =
     \<lparr>mi_type = Some (if isAttachment kind attachments then ''attachment'' else ''text''),
      mi_senderId = sender_opt w,
      mi_content = content,
      mi_attachments = formattedAttachments attachments\<rparr>"

definition on_chat ::
  "nat \<Rightarrow> conn \<Rightarrow> chat_kind \<Rightarrow> jstr \<Rightarrow> jstr \<Rightarrow> incoming_attachment list option
     \<Rightarrow> server \<Rightarrow> server" where
  "on_chat now c kind channelId content attachments s =
     (let w = socks s c
      in if \<not> has_identity w \<or> \<not> truthy channelId then s
         else broadcast channelId (Chat (chatMessage now w kind channelId content attachments))
                (store_message now channelId (chat_input w kind content attachments) s))"

subsection \<open>\<^verbatim>\<open>statusUpdate\<close>\<close>

definition statusMessage ::
  "nat \<Rightarrow> socket \<Rightarrow> jstr \<Rightarrow> jstr \<Rightarrow> jstr \<Rightarrow> jstr \<Rightarrow> status_update_message" where
  "statusMessage now w patientId status location details =
     \<lparr>su_patientId = patientId, su_status = status,
      su_createdBy = identity_str w,
      su_createdByName = or_default (ws_username w) ''Unknown User'',
      su_location = location, su_details = details, su_timestamp = now\<rparr>"

definition on_statusUpdate ::
  "nat \<Rightarrow> conn \<Rightarrow> jstr \<Rightarrow> jstr \<Rightarrow> jstr \<Rightarrow> jstr \<Rightarrow> server \<Rightarrow> server" where
  "on_statusUpdate now c patientId status location details s =
     (let w = socks s c
      in if \<not> has_identity w \<or> \<not> truthy patientId then s
         else
           let r = addStatusUpdate now
                     \<lparr>si_patientId = patientId, si_status = status,
                      si_createdBy = sender_opt w,
                      si_location = location, si_details = details\<rparr> (store s);
               ch = getChannelByPatientId patientId (snd r);
               s1 = s\<lparr>store := snd ch, trace := trace s @ [AddedStatus (fst r)]\<rparr>
           in (case fst ch of
                 None \<Rightarrow> s1
               | Some chid \<Rightarrow>
                   broadcast (Some chid)
                     (StatusUpdateMsg (statusMessage now w patientId status location details)) s1))"

subsection \<open>\<^verbatim>\<open>callInvitationResponse\<close> and \<^verbatim>\<open>callInvitation\<close>\<close>

text \<open>\<^verbatim>\<open>a || b\<close> on two optional strings.\<close>

definition or_else :: "jstr \<Rightarrow> jstr \<Rightarrow> jstr" where
  "or_else a b = (if truthy a then a else b)"

definition responseMessage ::
  "nat \<Rightarrow> socket \<Rightarrow> jstr \<Rightarrow> jstr \<Rightarrow> jstr \<Rightarrow> jstr \<Rightarrow> call_response" where
  "responseMessage now w channelId callType responderName response =
     \<lparr>cr_channelId = channelId, cr_callType = callType,
      cr_responderId = identity_str w,
      cr_responderName = or_default (or_else (ws_username w) responderName) ''Unknown User'',
      cr_response = response, cr_timestamp = now\<rparr>"

definition on_callInvitationResponse ::
  "nat \<Rightarrow> conn \<Rightarrow> jstr \<Rightarrow> jstr \<Rightarrow> jstr \<Rightarrow> jstr \<Rightarrow> jstr \<Rightarrow> server \<Rightarrow> server" where
  "on_callInvitationResponse now c channelId callType inviterId responderName response s =
     (case inviterId of
        None \<Rightarrow> s
      | Some inviter \<Rightarrow>
          if inviter = [] then s
          else (case find_client s inviter of
                  None \<Rightarrow> s
                | Some inviterClient \<Rightarrow>
                    s\<lparr>trace := trace s @
                        [Sent inviterClient
                           (CallInvitationResponseMsg
                              (responseMessage now (socks s c) channelId callType
                                 responderName response))]\<rparr>))"

text \<open>\<^verbatim>\<open>inviterId || ws.empId || (ws.userId ? ws.userId.toString() : '0')\<close>\<close>

definition senderEmpId :: "socket \<Rightarrow> jstr \<Rightarrow> string" where
  "senderEmpId w inviterId = or_default inviterId (identity_str w)"

definition invitationMessage ::
  "nat \<Rightarrow> socket \<Rightarrow> jstr \<Rightarrow> jstr \<Rightarrow> jstr \<Rightarrow> jstr \<Rightarrow> call_invitation" where
  "invitationMessage now w channelId callType inviterId inviterName =
     \<lparr>ci_channelId = channelId, ci_callType = callType,
      ci_inviterId = senderEmpId w inviterId,
      ci_inviterName = or_default (or_else inviterName (ws_username w)) ''Unknown User'',
      ci_timestamp = now\<rparr>"

definition on_callInvitation ::
  "nat \<Rightarrow> conn \<Rightarrow> jstr \<Rightarrow> jstr \<Rightarrow> jstr \<Rightarrow> jstr \<Rightarrow> jstr \<Rightarrow> server \<Rightarrow> server" where
  "on_callInvitation now c channelId callType targetUserId inviterId inviterName s =
     (if senderEmpId (socks s c) inviterId = [] \<or> \<not> truthy channelId then s
      else (case targetUserId of
              None \<Rightarrow> s
            | Some target \<Rightarrow>
                if target = [] then s
                else (case find_client s target of
                        None \<Rightarrow> s
                      | Some targetClient \<Rightarrow>
                          s\<lparr>trace := trace s @
                              [Sent targetClient
                                 (CallInvitationMsg
                                    (invitationMessage now (socks s c) channelId callType
                                       inviterId inviterName))]\<rparr>)))"

subsection \<open>\<^verbatim>\<open>userStatus\<close>\<close>

definition status_presence ::
  "nat \<Rightarrow> socket \<Rightarrow> jstr \<Rightarrow> bool option \<Rightarrow> jstr \<Rightarrow> presence" where
  "status_presence now w status inCall timestamp =
     \<lparr>pr_empId = Some (identity_str w),
      pr_username = Some (or_default (ws_username w) ''Unknown User''),
      pr_status = status,
      pr_inCall = inCall,
      pr_timestamp = (case timestamp of
                        None \<Rightarrow> ServerTime now
                      | Some t \<Rightarrow> (if t = [] then ServerTime now else ClientTime t)),
      pr_lastSeen = (if status = Some ''offline'' then Some now else None)\<rparr>"

definition on_userStatus ::
  "nat \<Rightarrow> conn \<Rightarrow> jstr \<Rightarrow> bool option \<Rightarrow> jstr \<Rightarrow> server \<Rightarrow> server" where
  "on_userStatus now c status inCall timestamp s =
     (let w = socks s c
      in if \<not> has_identity w then s
         else send_all (UserStatus (status_presence now w status inCall timestamp)) s)"

subsection \<open>\<^verbatim>\<open>callSignal\<close>\<close>

definition callMessage :: "socket \<Rightarrow> jstr \<Rightarrow> jstr \<Rightarrow> jstr \<Rightarrow> call_message" where
  "callMessage w channelId callType action =
     \<lparr>cs_channelId = channelId,
      cs_callerId = identity_str w,
      cs_callerName = or_default (ws_username w) ''Unknown User'',
      cs_callType = callType, cs_action = action\<rparr>"

text \<open>\<^verbatim>\<open>client.empId || (client.userId ? client.userId.toString() : null)\<close>\<close>

definition clientId :: "socket \<Rightarrow> jstr" where
  "clientId w =
     (if truthy (ws_empId w) then ws_empId w
      else (case ws_userId w of
              None \<Rightarrow> None
            | Some n \<Rightarrow> (if n \<noteq> 0 then Some (toString n) else None)))"

definition targeted :: "server \<Rightarrow> string list \<Rightarrow> conn \<Rightarrow> bool" where
  "targeted s targetUsers client =
     (is_open s client \<and>
      (case clientId (socks s client) of
         None \<Rightarrow> False
       | Some i \<Rightarrow> i \<noteq> [] \<and> i \<in> set targetUsers))"

definition on_callSignal ::
  "conn \<Rightarrow> jstr \<Rightarrow> jstr \<Rightarrow> jstr \<Rightarrow> string list option \<Rightarrow> server \<Rightarrow> server" where
  "on_callSignal c channelId callType action targetUsers s =
     (let w = socks s c
      in if \<not> has_identity w \<or> \<not> truthy channelId then s
         else (case targetUsers of
                 None \<Rightarrow> broadcast channelId (CallSignalMsg (callMessage w channelId callType action)) s
               | Some tu \<Rightarrow>
                   if 0 < length tu
                   then s\<lparr>trace := trace s @
                            map (\<lambda>client. Sent client
                                   (CallSignalMsg (callMessage w channelId callType action)))
                                (filter (targeted s tu) (members s channelId))\<rparr>
                   else broadcast channelId
                          (CallSignalMsg (callMessage w channelId callType action)) s))"

subsection \<open>Dispatch\<close>

text \<open>The two \<^verbatim>\<open>message\<close> listeners of a socket: the test listener answers a
  \<^verbatim>\<open>ping\<close> frame with \<^verbatim>\<open>pong\<close>; the router's \<^verbatim>\<open>switch\<close> has no default case.\<close>

fun on_message :: "nat \<Rightarrow> conn \<Rightarrow> inbound \<Rightarrow> server \<Rightarrow> server" where
  "on_message now c (Auth e u n) s = on_auth now c e u n s"
| "on_message now c (Join channelId patientId uname) s = on_join now c channelId patientId uname s"
| "on_message now c (ChatIn kind channelId content attachments) s =
     on_chat now c kind channelId content attachments s"
| "on_message now c (StatusUpdateIn patientId status location details) s =
     on_statusUpdate now c patientId status location details s"
| "on_message now c (CallInvitationResponseIn channelId callType inviterId responderId
                        responderName response) s =
     on_callInvitationResponse now c channelId callType inviterId responderName response s"
| "on_message now c (CallInvitationIn channelId callType targetUserId inviterId inviterName) s =
     on_callInvitation now c channelId callType targetUserId inviterId inviterName s"
| "on_message now c (UserStatusIn status inCall timestamp) s =
     on_userStatus now c status inCall timestamp s"
| "on_message now c (CallSignalIn channelId callType action targetUsers) s =
     on_callSignal c channelId callType action targetUsers s"
| "on_message now c TestPing s = s\<lparr>trace := trace s @ [Sent c (Pong now)]\<rparr>"
| "on_message now c OtherType s = s"

section \<open>Events of the server\<close>

text \<open>An event carries the clock reading of its handler. The transport delivers
  frames, pongs and the single \<^verbatim>\<open>close\<close> of a socket only for a socket of
  \<^verbatim>\<open>wss.clients\<close>; \<open>Sweep\<close> is a tick of the heartbeat timer.\<close>

datatype event =
    Connect
  | Frame conn inbound
  | PongEv conn
  | Close conn
  | Sweep

fun step :: "nat \<times> event \<Rightarrow> server \<Rightarrow> server" where
  "step (now, Connect) s = on_connection now s"
| "step (now, Frame c data) s = (if c \<in> set (clients s) then on_message now c data s else s)"
| "step (now, PongEv c) s = (if c \<in> set (clients s) then on_pong c s else s)"
| "step (now, Close c) s = (if c \<in> set (clients s) then on_close now c s else s)"
| "step (now, Sweep) s = heartbeat s"

definition run :: "(nat \<times> event) list \<Rightarrow> server \<Rightarrow> server" where
  "run evs s = fold step evs s"

section \<open>Observations\<close>

text \<open>The effects a server adds between a state and a later one.\<close>

definition emitted :: "server \<Rightarrow> server \<Rightarrow> effect list" where
  "emitted s s' = drop (length (trace s)) (trace s')"

text \<open>A run in which socket \<open>c\<close> neither answers a ping nor closes.\<close>

definition quiet :: "conn \<Rightarrow> (nat \<times> event) list \<Rightarrow> bool" where
  "quiet c evs = list_all (\<lambda>ev. snd ev \<noteq> PongEv c \<and> snd ev \<noteq> Close c) evs"

text \<open>Socket \<open>c\<close> was accepted by the server and has not closed.\<close>

definition registered :: "conn \<Rightarrow> server \<Rightarrow> bool" where
  "registered c s = (c \<in> set (clients s) \<and> c < nextConn s)"

text \<open>Socket \<open>c\<close> has an entry in the member list of channel \<open>a\<close> that a later
  close will not take away: it is listed, and listed twice whenever \<open>a\<close> is its current
  channel while it is registered.\<close>

definition entry_kept :: "conn \<Rightarrow> jstr \<Rightarrow> server \<Rightarrow> bool" where
  "entry_kept c a s =
     (c < nextConn s \<and> c \<in> set (members s a) \<and>
      (ws_channelId (socks s c) = a \<and> c \<in> set (clients s)
         \<longrightarrow> 2 \<le> count_list (members s a) c))"

text \<open>The identity an effect carries: \<^verbatim>\<open>senderId\<close>, \<^verbatim>\<open>createdBy\<close>, \<^verbatim>\<open>callerId\<close>,
  \<^verbatim>\<open>inviterId\<close>, \<^verbatim>\<open>responderId\<close> or \<^verbatim>\<open>empId\<close> of the frame sent or the document stored;
  \<open>None\<close> for an effect without such a field.\<close>

fun actor_of :: "effect \<Rightarrow> jstr" where
  "actor_of (Sent _ (Chat m)) = Some (cm_senderId m)"
| "actor_of (Sent _ (StatusUpdateMsg m)) = Some (su_createdBy m)"
| "actor_of (Sent _ (CallSignalMsg m)) = Some (cs_callerId m)"
| "actor_of (Sent _ (CallInvitationMsg m)) = Some (ci_inviterId m)"
| "actor_of (Sent _ (CallInvitationResponseMsg m)) = Some (cr_responderId m)"
| "actor_of (Sent _ (UserStatus p)) = pr_empId p"
| "actor_of (AddedMessage (Some m)) = sm_senderId m"
| "actor_of (AddedStatus (Some u)) = ss_createdBy u"
| "actor_of _ = None"

section \<open>Example states\<close>

text \<open>
  A small ward used to run the handlers on concrete inputs: sockets 1 (Dr. Smith,
  \<open>e1\<close>) and 2 (Nurse Joy, \<open>n1234\<close>) have authenticated and joined channel \<open>C1\<close>;
  socket 3 joined \<open>C1\<close> without authenticating and has not answered the last ping.
  The store holds three messages (two of \<open>C1\<close>, inserted out of date order) and two
  status updates of the one patient, \<open>demo_patient\<close>.
\<close>

definition demo_sock :: "jstr \<Rightarrow> jstr \<Rightarrow> jstr \<Rightarrow> bool \<Rightarrow> socket" where
  "demo_sock e n ch alive =
     \<lparr>ws_userId = None, ws_empId = e, ws_username = n, ws_channelId = ch,
      ws_isAlive = alive, readyOpen = True\<rparr>"

definition demo_msg :: "nat \<Rightarrow> string \<Rightarrow> string \<Rightarrow> nat \<Rightarrow> stored_message" where
  "demo_msg i ch txt at =
     \<lparr>sm_id = i, sm_type = ''text'', sm_channelId = Some ch, sm_senderId = Some ''e1'',
      sm_content = Some txt, sm_attachments = None, sm_createdAt = at\<rparr>"

definition demo_patient :: string where
  "demo_patient = ''507f1f77bcf86cd799439011''"

definition demo_status :: "nat \<Rightarrow> string \<Rightarrow> nat \<Rightarrow> stored_status" where
  "demo_status i st at =
     \<lparr>ss_id = i, ss_patientId = Some demo_patient, ss_status = Some st,
      ss_createdBy = Some ''e1'', ss_location = None, ss_details = None, ss_createdAt = at\<rparr>"

definition demo_db :: db where
  "demo_db =
     \<lparr>messages = [demo_msg 0 ''C1'' ''second'' 30, demo_msg 1 ''C1'' ''first'' 10,
                  demo_msg 2 ''C2'' ''other'' 20],
      statusUpdates = [demo_status 3 ''admitted'' 5, demo_status 4 ''in cath lab'' 9],
      patients = [demo_patient],
      channelDocs = [(demo_patient, ''C1'')],
      nextId = 5,
      faults = []\<rparr>"

definition ward :: server where
  "ward =
     \<lparr>clients = [1, 2, 3],
      socks = (\<lambda>_. new_socket)
                (1 := demo_sock (Some ''e1'') (Some ''Dr. Smith'') (Some ''C1'') True,
                 2 := demo_sock (Some ''n1234'') (Some ''Nurse Joy'') (Some ''C1'') True,
                 3 := demo_sock None None (Some ''C1'') False),
      channels = [Some ''C1'' \<mapsto> [1, 2, 3]],
      store = demo_db,
      trace = [],
      nextConn = 4\<rparr>"

text \<open>The ward when the next call of the store throws.\<close>

definition ward_db_down :: server where
  "ward_db_down = ward\<lparr>store := demo_db\<lparr>faults := [True]\<rparr>\<rparr>"

text \<open>The ward while socket 2 is closing: still in \<^verbatim>\<open>wss.clients\<close>, no longer
  \<^verbatim>\<open>OPEN\<close>.\<close>

definition ward_closing :: server where
  "ward_closing = ward\<lparr>socks := (socks ward)(2 := (socks ward 2)\<lparr>readyOpen := False\<rparr>)\<rparr>"

text \<open>The ward before anyone joined a channel.\<close>

definition lobby :: server where
  "lobby = ward\<lparr>channels := Map.empty\<rparr>"

text \<open>An inbound attachment that names neither its type nor its file.\<close>

definition demo_scan :: incoming_attachment where
  "demo_scan = \<lparr>in_type = None, in_url = ''/uploads/ecg.png'', in_name = None,
                in_size = Some 2048, in_mimeType = Some ''image/png'', in_thumbnailUrl = None\<rparr>"

lemmas demo_defs =
  ward_def ward_db_down_def ward_closing_def demo_db_def demo_sock_def demo_msg_def
  demo_status_def new_socket_def

section \<open>Facts about the store\<close>

lemma messages_db_tick [simp]: "messages (db_tick d) = messages d"
  by (simp add: db_tick_def)

lemma statusUpdates_db_tick [simp]: "statusUpdates (db_tick d) = statusUpdates d"
  by (simp add: db_tick_def)

lemma addMessage_fails:
  "db_fails d \<Longrightarrow> addMessageToChannel now ch m d = (None, db_tick d)"
  by (simp add: addMessageToChannel_def)

lemma saved_message:
  "fst (addMessageToChannel now ch m d) =
     (if db_fails d then None
      else Some \<lparr>sm_id = nextId d,
                 sm_type = (if has_attachments (mi_attachments m) then ''attachment''
                            else or_default (mi_type m) ''text''),
                 sm_channelId = ch, sm_senderId = mi_senderId m, sm_content = mi_content m,
                 sm_attachments = mi_attachments m, sm_createdAt = now\<rparr>)"
  by (simp add: addMessageToChannel_def has_attachments_def Let_def)

lemma messages_after_add:
  "messages (snd (addMessageToChannel now ch m d)) =
     messages d @ (case fst (addMessageToChannel now ch m d) of None \<Rightarrow> [] | Some doc \<Rightarrow> [doc])"
  by (simp add: addMessageToChannel_def Let_def)

lemma patients_db_tick [simp]: "patients (db_tick d) = patients d"
  by (simp add: db_tick_def)

lemma patient_resolves_iff:
  "fst (getPatientById ident d) =
     (\<not> db_fails d \<and> (\<exists>i oid. ident = Some i \<and> objectId i = Some oid \<and> oid \<in> set (patients d)))"
  by (auto simp: getPatientById_def split: option.splits)

lemma objectId_demo_patient: "objectId demo_patient = Some demo_patient"
  by (simp add: objectId_def hex_lower_def demo_patient_def)

lemma objectId_short: "length i \<noteq> 24 \<Longrightarrow> objectId i = None"
  by (simp add: objectId_def)

lemma ward_facts:
  "trace ward = []" "store ward = demo_db" "clients ward = [1, 2, 3]"
  "members ward (Some ''C1'') = [1, 2, 3]" "members ward None = []"
  "is_open ward = (\<lambda>_. True)"
  "socks ward 1 = demo_sock (Some ''e1'') (Some ''Dr. Smith'') (Some ''C1'') True"
  "socks ward (Suc 0) = demo_sock (Some ''e1'') (Some ''Dr. Smith'') (Some ''C1'') True"
  "socks ward 2 = demo_sock (Some ''n1234'') (Some ''Nurse Joy'') (Some ''C1'') True"
  "socks ward 3 = demo_sock None None (Some ''C1'') False"
  by (simp_all add: ward_def members_def is_open_def demo_sock_def new_socket_def fun_eq_iff)

section \<open>Chat messages: persist, then broadcast\<close>

text \<open>
  Claim C1. A \<^verbatim>\<open>message\<close> or \<^verbatim>\<open>attachment\<close> frame from a socket with a bound identity
  and with a channel id first awaits \<^verbatim>\<open>addMessageToChannel\<close> and then sends the chat
  frame to every open member of the channel, in member order. When the store works, the
  call returns the new document and the \<^verbatim>\<open>messages\<close> collection ends with it. When the
  store throws, the call returns \<^verbatim>\<open>null\<close>, nothing is stored, and the same broadcast
  follows.
\<close>

theorem chat_persists_then_broadcasts:
  assumes "has_identity (socks s c)" and "truthy channelId"
  shows "trace (on_chat now c kind channelId content attachments s) =
           trace s @
           AddedMessage (fst (addMessageToChannel now channelId
                                (chat_input (socks s c) kind content attachments) (store s))) #
           map (\<lambda>m. Sent m (Chat (chatMessage now (socks s c) kind channelId content attachments)))
               (filter (is_open s) (members s channelId))
         \<and> (db_fails (store s) \<longrightarrow>
              fst (addMessageToChannel now channelId
                     (chat_input (socks s c) kind content attachments) (store s)) = None
              \<and> messages (store (on_chat now c kind channelId content attachments s))
                  = messages (store s))
         \<and> (\<not> db_fails (store s) \<longrightarrow>
              fst (addMessageToChannel now channelId
                     (chat_input (socks s c) kind content attachments) (store s)) =
                Some \<lparr>sm_id = nextId (store s),
                      sm_type = (if kind = KAttachment \<or> has_attachments attachments
                                 then ''attachment'' else ''text''),
                      sm_channelId = channelId,
                      sm_senderId = sender_opt (socks s c),
                      sm_content = content,
                      sm_attachments = formattedAttachments attachments,
                      sm_createdAt = now\<rparr>
              \<and> messages (store (on_chat now c kind channelId content attachments s)) =
                  messages (store s) @
                  [\<lparr>sm_id = nextId (store s),
                    sm_type = (if kind = KAttachment \<or> has_attachments attachments
                               then ''attachment'' else ''text''),
                    sm_channelId = channelId,
                    sm_senderId = sender_opt (socks s c),
                    sm_content = content,
                    sm_attachments = formattedAttachments attachments,
                    sm_createdAt = now\<rparr>])"
proof -
  let ?input = "chat_input (socks s c) kind content attachments"
  let ?s1 = "store_message now channelId ?input s"
  let ?doc = "\<lparr>sm_id = nextId (store s),
               sm_type = (if kind = KAttachment \<or> has_attachments attachments
                          then ''attachment'' else ''text''),
               sm_channelId = channelId,
               sm_senderId = sender_opt (socks s c),
               sm_content = content,
               sm_attachments = formattedAttachments attachments,
               sm_createdAt = now\<rparr>"
  have open_same: "is_open ?s1 = is_open s"
    by (simp add: store_message_def is_open_def fun_eq_iff Let_def)
  have mem_same: "members ?s1 channelId = members s channelId"
    by (simp add: store_message_def members_def Let_def)
  have unfolded: "on_chat now c kind channelId content attachments s =
      broadcast channelId
        (Chat (chatMessage now (socks s c) kind channelId content attachments)) ?s1"
    using assms by (simp add: on_chat_def Let_def)
  have tr: "trace ?s1 =
              trace s @ [AddedMessage (fst (addMessageToChannel now channelId ?input (store s)))]"
    by (simp add: store_message_def Let_def)
  have st: "store (broadcast channelId f ?s1) =
              snd (addMessageToChannel now channelId ?input (store s))" for f
    by (simp add: broadcast_def store_message_def Let_def)
  have nonempty: "has_attachments (formattedAttachments attachments) = has_attachments attachments"
    by (simp add: formattedAttachments_def has_attachments_def split: option.splits)
  have saved: "\<not> db_fails (store s) \<Longrightarrow>
               fst (addMessageToChannel now channelId ?input (store s)) = Some ?doc"
    by (simp add: saved_message chat_input_def isAttachment_def nonempty or_default_def)
  have a: "trace (on_chat now c kind channelId content attachments s) =
           trace s @
           AddedMessage (fst (addMessageToChannel now channelId ?input (store s))) #
           map (\<lambda>m. Sent m (Chat (chatMessage now (socks s c) kind channelId content attachments)))
               (filter (is_open s) (members s channelId))"
    by (simp add: unfolded broadcast_def open_same mem_same tr)
  have b: "db_fails (store s) \<longrightarrow>
              fst (addMessageToChannel now channelId ?input (store s)) = None
              \<and> messages (store (on_chat now c kind channelId content attachments s))
                  = messages (store s)"
    by (simp add: unfolded st addMessage_fails)
  have c: "\<not> db_fails (store s) \<longrightarrow>
              fst (addMessageToChannel now channelId ?input (store s)) = Some ?doc
              \<and> messages (store (on_chat now c kind channelId content attachments s)) =
                  messages (store s) @ [?doc]"
    by (simp add: unfolded st messages_after_add saved)
  from a b c show ?thesis by blast
qed

theorem chat_persists_then_broadcasts_witness:
  "trace (on_chat 7 1 KMessage (Some ''C1'') (Some ''hello'') None ward_db_down) =
     [AddedMessage None,
      Sent 1 (Chat \<lparr>cm_type = ''message'', cm_channelId = Some ''C1'', cm_senderId = ''e1'',
                    cm_senderName = ''Dr. Smith'', cm_content = Some ''hello'', cm_timestamp = 7,
                    cm_attachments = None\<rparr>),
      Sent 2 (Chat \<lparr>cm_type = ''message'', cm_channelId = Some ''C1'', cm_senderId = ''e1'',
                    cm_senderName = ''Dr. Smith'', cm_content = Some ''hello'', cm_timestamp = 7,
                    cm_attachments = None\<rparr>),
      Sent 3 (Chat \<lparr>cm_type = ''message'', cm_channelId = Some ''C1'', cm_senderId = ''e1'',
                    cm_senderName = ''Dr. Smith'', cm_content = Some ''hello'', cm_timestamp = 7,
                    cm_attachments = None\<rparr>)]
   \<and> messages (store (on_chat 7 1 KMessage (Some ''C1'') (Some ''hello'') None ward_db_down))
       = messages demo_db
   \<and> trace (on_chat 7 1 KMessage (Some ''C1'') (Some ''hello'') None ward) =
     [AddedMessage (Some \<lparr>sm_id = 5, sm_type = ''text'', sm_channelId = Some ''C1'',
                          sm_senderId = Some ''e1'', sm_content = Some ''hello'',
                          sm_attachments = None, sm_createdAt = 7\<rparr>),
      Sent 1 (Chat \<lparr>cm_type = ''message'', cm_channelId = Some ''C1'', cm_senderId = ''e1'',
                    cm_senderName = ''Dr. Smith'', cm_content = Some ''hello'', cm_timestamp = 7,
                    cm_attachments = None\<rparr>),
      Sent 2 (Chat \<lparr>cm_type = ''message'', cm_channelId = Some ''C1'', cm_senderId = ''e1'',
                    cm_senderName = ''Dr. Smith'', cm_content = Some ''hello'', cm_timestamp = 7,
                    cm_attachments = None\<rparr>),
      Sent 3 (Chat \<lparr>cm_type = ''message'', cm_channelId = Some ''C1'', cm_senderId = ''e1'',
                    cm_senderName = ''Dr. Smith'', cm_content = Some ''hello'', cm_timestamp = 7,
                    cm_attachments = None\<rparr>)]
   \<and> messages (store (on_chat 7 1 KMessage (Some ''C1'') (Some ''hello'') None ward)) =
       messages demo_db @
       [\<lparr>sm_id = 5, sm_type = ''text'', sm_channelId = Some ''C1'', sm_senderId = Some ''e1'',
         sm_content = Some ''hello'', sm_attachments = None, sm_createdAt = 7\<rparr>]"
proof -
  have chan: "truthy (Some ''C1'')"
    by (simp add: truthy_def)
  have ident_down: "has_identity (socks ward_db_down 1)"
    by (simp add: demo_defs has_identity_def truthy_def)
  have down: "db_fails (store ward_db_down)"
    by (simp add: demo_defs db_fails_def)
  have ident_up: "has_identity (socks ward 1)"
    by (simp add: demo_defs has_identity_def truthy_def)
  have up: "\<not> db_fails (store ward)" "nextId (store ward) = 5" "store ward = demo_db"
    by (simp_all add: ward_def demo_db_def db_fails_def)
  have failing:
    "trace (on_chat 7 1 KMessage (Some ''C1'') (Some ''hello'') None ward_db_down) =
     [AddedMessage None,
      Sent 1 (Chat \<lparr>cm_type = ''message'', cm_channelId = Some ''C1'', cm_senderId = ''e1'',
                    cm_senderName = ''Dr. Smith'', cm_content = Some ''hello'', cm_timestamp = 7,
                    cm_attachments = None\<rparr>),
      Sent 2 (Chat \<lparr>cm_type = ''message'', cm_channelId = Some ''C1'', cm_senderId = ''e1'',
                    cm_senderName = ''Dr. Smith'', cm_content = Some ''hello'', cm_timestamp = 7,
                    cm_attachments = None\<rparr>),
      Sent 3 (Chat \<lparr>cm_type = ''message'', cm_channelId = Some ''C1'', cm_senderId = ''e1'',
                    cm_senderName = ''Dr. Smith'', cm_content = Some ''hello'', cm_timestamp = 7,
                    cm_attachments = None\<rparr>)]
     \<and> messages (store (on_chat 7 1 KMessage (Some ''C1'') (Some ''hello'') None ward_db_down))
       = messages demo_db"
    using chat_persists_then_broadcasts [OF ident_down chan, of 7 KMessage "Some ''hello''" None]
          down
    by (simp add: demo_defs members_def is_open_def chatMessage_def isAttachment_def
          has_attachments_def formattedAttachments_def identity_str_def or_default_def)
  have working:
    "trace (on_chat 7 1 KMessage (Some ''C1'') (Some ''hello'') None ward) =
     [AddedMessage (Some \<lparr>sm_id = 5, sm_type = ''text'', sm_channelId = Some ''C1'',
                          sm_senderId = Some ''e1'', sm_content = Some ''hello'',
                          sm_attachments = None, sm_createdAt = 7\<rparr>),
      Sent 1 (Chat \<lparr>cm_type = ''message'', cm_channelId = Some ''C1'', cm_senderId = ''e1'',
                    cm_senderName = ''Dr. Smith'', cm_content = Some ''hello'', cm_timestamp = 7,
                    cm_attachments = None\<rparr>),
      Sent 2 (Chat \<lparr>cm_type = ''message'', cm_channelId = Some ''C1'', cm_senderId = ''e1'',
                    cm_senderName = ''Dr. Smith'', cm_content = Some ''hello'', cm_timestamp = 7,
                    cm_attachments = None\<rparr>),
      Sent 3 (Chat \<lparr>cm_type = ''message'', cm_channelId = Some ''C1'', cm_senderId = ''e1'',
                    cm_senderName = ''Dr. Smith'', cm_content = Some ''hello'', cm_timestamp = 7,
                    cm_attachments = None\<rparr>)]
     \<and> messages (store (on_chat 7 1 KMessage (Some ''C1'') (Some ''hello'') None ward)) =
       messages demo_db @
       [\<lparr>sm_id = 5, sm_type = ''text'', sm_channelId = Some ''C1'', sm_senderId = Some ''e1'',
         sm_content = Some ''hello'', sm_attachments = None, sm_createdAt = 7\<rparr>]"
    using chat_persists_then_broadcasts [OF ident_up chan, of 7 KMessage "Some ''hello''" None] up
    by (simp add: ward_def demo_sock_def new_socket_def members_def is_open_def chatMessage_def
          isAttachment_def has_attachments_def formattedAttachments_def identity_str_def
          sender_opt_def truthy_def or_default_def)
  from failing working show ?thesis by simp
qed

section \<open>Joining a channel\<close>

lemma history_sorted: "sorted (map sm_createdAt (fst (getChannelMessages ch d)))"
  by (simp add: getChannelMessages_def)

lemma history_content:
  "mset (fst (getChannelMessages ch d)) =
     (if db_fails d then {#} else mset (filter (\<lambda>m. sm_channelId m = ch) (messages d)))"
  by (simp add: getChannelMessages_def)

lemma updates_newest_first: "sorted (rev (map ss_createdAt (fst (getStatusUpdates p d))))"
  by (simp add: getStatusUpdates_def rev_map)

lemma trace_send_history:
  "trace (send_history c ch s) = trace s @ [Sent c (History (fst (getChannelMessages ch (store s))))]"
  by (simp add: send_history_def Let_def)

lemma store_send_history: "store (send_history c ch s) = snd (getChannelMessages ch (store s))"
  by (simp add: send_history_def Let_def)

lemma trace_send_status_updates:
  "trace (send_status_updates c p s) =
     trace s @ (if fst (getPatientById p (store s))
                then [Sent c (StatusUpdates (fst (getStatusUpdates p (snd (getPatientById p (store s))))))]
                else [])"
  by (simp add: send_status_updates_def Let_def)

lemma members_subscribe: "members (subscribe c ch s) ch = members s ch @ [c]"
  by (simp add: subscribe_def members_def)

lemma is_open_subscribe: "is_open (subscribe c ch s) = is_open s"
  by (simp add: subscribe_def is_open_def fun_eq_iff)

lemma send_history_keeps:
  "members (send_history c ch s) k = members s k" "is_open (send_history c ch s) = is_open s"
  by (simp_all add: send_history_def members_def is_open_def Let_def fun_eq_iff)

lemma send_status_updates_keeps:
  "members (send_status_updates c p s) k = members s k"
  "is_open (send_status_updates c p s) = is_open s"
  by (simp_all add: send_status_updates_def members_def is_open_def Let_def fun_eq_iff)

lemma trace_broadcast:
  "trace (broadcast ch f s) = trace s @ map (\<lambda>m. Sent m f) (filter (is_open s) (members s ch))"
  by (simp add: broadcast_def)

lemma trace_store_message:
  "trace (store_message now ch m s) = trace s @ [AddedMessage (fst (addMessageToChannel now ch m (store s)))]"
  by (simp add: store_message_def Let_def)

lemma trace_subscribe: "trace (subscribe c ch s) = trace s" "store (subscribe c ch s) = store s"
  by (simp_all add: subscribe_def)

lemma trace_on_join:
  "trace (on_join now c channelId patientId uname s) =
     trace s @
     [Sent c (History (fst (getChannelMessages channelId (store s))))] @
     (if fst (getPatientById patientId (snd (getChannelMessages channelId (store s))))
      then [Sent c (StatusUpdates
                      (fst (getStatusUpdates patientId
                              (snd (getPatientById patientId
                                      (snd (getChannelMessages channelId (store s))))))))]
      else []) @
     map (\<lambda>m. Sent m (System (join_message now channelId uname)))
         (filter (is_open s) (members s channelId @ [c])) @
     [AddedMessage
        (fst (addMessageToChannel now channelId
                \<lparr>mi_type = Some ''system'', mi_senderId = sender_opt (socks s c),
                 mi_content = Some (template uname @ '' has joined the channel''),
                 mi_attachments = None\<rparr>
                (store (send_status_updates c patientId
                          (send_history c channelId (subscribe c channelId s))))))]"
proof -
  let ?s1 = "subscribe c channelId s"
  let ?s2 = "send_history c channelId ?s1"
  let ?s3 = "send_status_updates c patientId ?s2"
  have recipients: "filter (is_open ?s3) (members ?s3 channelId) =
                    filter (is_open s) (members s channelId @ [c])"
    by (simp only: send_status_updates_keeps send_history_keeps members_subscribe is_open_subscribe)
  have t2: "trace ?s2 = trace s @ [Sent c (History (fst (getChannelMessages channelId (store s))))]"
    by (simp add: trace_send_history trace_subscribe)
  have st2: "store ?s2 = snd (getChannelMessages channelId (store s))"
    by (simp add: store_send_history trace_subscribe)
  have ids: "sender_opt (socks (broadcast channelId f ?s3) c) = sender_opt (socks s c)" for f
    by (simp add: broadcast_def send_status_updates_def send_history_def subscribe_def
          sender_opt_def Let_def)
  have st4: "store (broadcast channelId f ?s3) = store ?s3" for f
    by (simp add: broadcast_def)
  show ?thesis
    by (simp add: on_join_def Let_def trace_store_message trace_broadcast recipients
          trace_send_status_updates t2 st2 ids st4 del: filter_append)
qed

lemma snd_getChannelMessages: "snd (getChannelMessages ch d) = db_tick d"
  by (simp add: getChannelMessages_def)

lemma snd_getPatientById: "snd (getPatientById ident d) = db_tick d"
  by (simp add: getPatientById_def)

lemma updates_content:
  "mset (fst (getStatusUpdates p d)) =
     (if db_fails d then {#} else mset (filter (\<lambda>u. ss_patientId u = p) (statusUpdates d)))"
  by (simp add: getStatusUpdates_def)

text \<open>
  What a \<^verbatim>\<open>join\<close> frame makes the server do, in order: one \<^verbatim>\<open>history\<close> frame to the
  joining socket with the stored messages of the channel, oldest first (none when the
  store throws); then one \<^verbatim>\<open>statusUpdates\<close> frame with the patient's updates, newest
  first, exactly when the store answers and the patient id is a well-formed id of a
  patient document; then the \<^verbatim>\<open>system\<close> frame to the open members of the channel, the
  joining socket among them; the system message is stored last. The name in the system
  message is the \<^verbatim>\<open>username\<close> field of the frame.
\<close>

lemma on_join_replays_then_announces:
  "let d0 = store s;
       H = fst (getChannelMessages channelId d0);
       p = getPatientById patientId (snd (getChannelMessages channelId d0));
       U = fst (getStatusUpdates patientId (snd p))
   in (\<exists>r. trace (on_join now c channelId patientId uname s) =
              trace s @ [Sent c (History H)] @
              (if fst p then [Sent c (StatusUpdates U)] else []) @
              map (\<lambda>m. Sent m (System (join_message now channelId uname)))
                  (filter (is_open s) (members s channelId @ [c])) @
              [AddedMessage r])
      \<and> sorted (map sm_createdAt H)
      \<and> mset H = (if db_fails d0 then {#}
                   else mset (filter (\<lambda>m. sm_channelId m = channelId) (messages d0)))
      \<and> fst p =
          (\<not> db_fails (db_tick d0) \<and>
           (\<exists>i oid. patientId = Some i \<and> objectId i = Some oid \<and> oid \<in> set (patients d0)))
      \<and> sorted (rev (map ss_createdAt U))
      \<and> mset U = (if db_fails (db_tick (db_tick d0)) then {#}
                   else mset (filter (\<lambda>u. ss_patientId u = patientId) (statusUpdates d0)))
      \<and> sy_content (join_message now channelId uname) =
            template uname @ '' has joined the channel''"
  unfolding Let_def
proof (intro conjI)
  show "\<exists>r. trace (on_join now c channelId patientId uname s) =
              trace s @ [Sent c (History (fst (getChannelMessages channelId (store s))))] @
              (if fst (getPatientById patientId (snd (getChannelMessages channelId (store s))))
               then [Sent c (StatusUpdates
                       (fst (getStatusUpdates patientId
                               (snd (getPatientById patientId
                                       (snd (getChannelMessages channelId (store s))))))))]
               else []) @
              map (\<lambda>m. Sent m (System (join_message now channelId uname)))
                  (filter (is_open s) (members s channelId @ [c])) @
              [AddedMessage r]"
    by (simp add: trace_on_join del: filter_append)
next
  show "sorted (map sm_createdAt (fst (getChannelMessages channelId (store s))))"
    by (rule history_sorted)
next
  show "mset (fst (getChannelMessages channelId (store s))) =
          (if db_fails (store s) then {#}
           else mset (filter (\<lambda>m. sm_channelId m = channelId) (messages (store s))))"
    by (rule history_content)
next
  show "fst (getPatientById patientId (snd (getChannelMessages channelId (store s)))) =
          (\<not> db_fails (db_tick (store s)) \<and>
           (\<exists>i oid. patientId = Some i \<and> objectId i = Some oid
                    \<and> oid \<in> set (patients (store s))))"
    by (simp add: patient_resolves_iff snd_getChannelMessages)
next
  show "sorted (rev (map ss_createdAt
          (fst (getStatusUpdates patientId
             (snd (getPatientById patientId (snd (getChannelMessages channelId (store s)))))))))"
    by (rule updates_newest_first)
next
  show "mset (fst (getStatusUpdates patientId
             (snd (getPatientById patientId (snd (getChannelMessages channelId (store s))))))) =
          (if db_fails (db_tick (db_tick (store s))) then {#}
           else mset (filter (\<lambda>u. ss_patientId u = patientId) (statusUpdates (store s))))"
    by (simp add: updates_content snd_getPatientById snd_getChannelMessages)
next
  show "sy_content (join_message now channelId uname) =
            template uname @ '' has joined the channel''"
    by (simp add: join_message_def)
qed

text \<open>Nurse Joy joins \<open>C1\<close> of the ward again, naming herself and the patient.\<close>

lemma join_of_the_ward:
  "\<exists>r. trace (on_join 40 2 (Some ''C1'') (Some demo_patient) (Some ''Nurse Joy'') ward) =
     [Sent 2 (History [demo_msg 1 ''C1'' ''first'' 10, demo_msg 0 ''C1'' ''second'' 30]),
      Sent 2 (StatusUpdates [demo_status 4 ''in cath lab'' 9, demo_status 3 ''admitted'' 5]),
      Sent 1 (System \<lparr>sy_channelId = Some ''C1'',
                       sy_content = ''Nurse Joy has joined the channel'', sy_timestamp = 40\<rparr>),
      Sent 2 (System \<lparr>sy_channelId = Some ''C1'',
                       sy_content = ''Nurse Joy has joined the channel'', sy_timestamp = 40\<rparr>),
      Sent 3 (System \<lparr>sy_channelId = Some ''C1'',
                       sy_content = ''Nurse Joy has joined the channel'', sy_timestamp = 40\<rparr>),
      Sent 2 (System \<lparr>sy_channelId = Some ''C1'',
                       sy_content = ''Nurse Joy has joined the channel'', sy_timestamp = 40\<rparr>),
      AddedMessage r]"
proof -
  have hist: "getChannelMessages (Some ''C1'') demo_db =
                ([demo_msg 1 ''C1'' ''first'' 10, demo_msg 0 ''C1'' ''second'' 30], demo_db)"
    by (simp add: getChannelMessages_def db_fails_def db_tick_def demo_db_def demo_msg_def)
  have pat: "getPatientById (Some demo_patient) demo_db = (True, demo_db)"
    by (simp add: getPatientById_def objectId_demo_patient)
       (simp add: db_fails_def db_tick_def demo_db_def)
  have upd: "getStatusUpdates (Some demo_patient) demo_db =
               ([demo_status 4 ''in cath lab'' 9, demo_status 3 ''admitted'' 5], demo_db)"
    by (simp add: getStatusUpdates_def db_fails_def db_tick_def demo_db_def demo_status_def)
  from on_join_replays_then_announces
         [of ward "Some ''C1''" "Some demo_patient" 40 2 "Some ''Nurse Joy''"]
  show ?thesis
    by (simp add: Let_def ward_facts hist pat upd join_message_def template_def
          del: One_nat_def)
qed

text \<open>
  Claim C2 at the join frame of the specification,
  \<^verbatim>\<open>{type: "join", channelId: "CASE1", patientId: "P1"}\<close>, sent by socket 1 (bound to
  \<open>e1\<close>, Dr. Smith) before anyone joined a channel. The \<^verbatim>\<open>history\<close> frame comes first and
  the \<^verbatim>\<open>system\<close> frame after it, as the claim says, and no \<^verbatim>\<open>statusUpdates\<close> frame is
  sent, since \<open>P1\<close> is no id of a patient document. But the \<^verbatim>\<open>join\<close> case takes the name
  from the frame, which has none, and not from the socket: the system message sent and
  stored is \<open>undefined has joined the channel\<close>. The \<^verbatim>\<open>close\<close> listener takes it from the
  socket, and would say \<open>Dr. Smith has left the channel\<close>.
\<close>

theorem join_announces_undefined:
  "ws_username (socks lobby 1) = Some ''Dr. Smith''
   \<and> trace (on_join 7 1 (Some ''CASE1'') (Some ''P1'') None lobby) =
       [Sent 1 (History []),
        Sent 1 (System \<lparr>sy_channelId = Some ''CASE1'',
                        sy_content = ''undefined has joined the channel'', sy_timestamp = 7\<rparr>),
        AddedMessage (Some \<lparr>sm_id = 5, sm_type = ''system'', sm_channelId = Some ''CASE1'',
                            sm_senderId = Some ''e1'',
                            sm_content = Some ''undefined has joined the channel'',
                            sm_attachments = None, sm_createdAt = 7\<rparr>)]
   \<and> sy_content (leave_message 9 (socks lobby 1)) = ''Dr. Smith has left the channel''"
proof -
  have lobby_facts:
    "trace lobby = []" "store lobby = demo_db" "members lobby (Some ''CASE1'') = []"
    "is_open lobby 1"
    "socks lobby 1 = demo_sock (Some ''e1'') (Some ''Dr. Smith'') (Some ''C1'') True"
    by (simp_all add: lobby_def ward_def members_def is_open_def demo_sock_def)
  have hist: "getChannelMessages (Some ''CASE1'') demo_db = ([], demo_db)"
    by (simp add: getChannelMessages_def db_fails_def db_tick_def demo_db_def demo_msg_def)
  have pat: "getPatientById (Some ''P1'') demo_db = (False, demo_db)"
    by (simp add: getPatientById_def objectId_short)
       (simp add: db_fails_def db_tick_def demo_db_def)
  have st: "store (send_status_updates 1 (Some ''P1'')
                    (send_history 1 (Some ''CASE1'') (subscribe 1 (Some ''CASE1'') lobby))) =
            demo_db"
    by (simp add: send_status_updates_def send_history_def subscribe_def Let_def lobby_facts
          hist pat)
  have sender: "sender_opt (demo_sock (Some ''e1'') (Some ''Dr. Smith'') (Some ''C1'') True) =
                  Some ''e1''"
    by (simp add: sender_opt_def demo_sock_def truthy_def)
  have saved: "fst (addMessageToChannel 7 (Some ''CASE1'')
                \<lparr>mi_type = Some ''system'', mi_senderId = Some ''e1'',
                 mi_content = Some ''undefined has joined the channel'',
                 mi_attachments = None\<rparr> demo_db) =
               Some \<lparr>sm_id = 5, sm_type = ''system'', sm_channelId = Some ''CASE1'',
                     sm_senderId = Some ''e1'',
                     sm_content = Some ''undefined has joined the channel'',
                     sm_attachments = None, sm_createdAt = 7\<rparr>"
    by (simp add: saved_message has_attachments_def db_fails_def demo_db_def or_default_def)
  have a: "ws_username (socks lobby 1) = Some ''Dr. Smith''"
    by (simp add: lobby_facts demo_sock_def del: One_nat_def)
  have b: "trace (on_join 7 1 (Some ''CASE1'') (Some ''P1'') None lobby) =
       [Sent 1 (History []),
        Sent 1 (System \<lparr>sy_channelId = Some ''CASE1'',
                        sy_content = ''undefined has joined the channel'', sy_timestamp = 7\<rparr>),
        AddedMessage (Some \<lparr>sm_id = 5, sm_type = ''system'', sm_channelId = Some ''CASE1'',
                            sm_senderId = Some ''e1'',
                            sm_content = Some ''undefined has joined the channel'',
                            sm_attachments = None, sm_createdAt = 7\<rparr>)]"
    by (simp add: trace_on_join lobby_facts hist pat st sender template_def saved
          join_message_def del: One_nat_def)
  have c: "sy_content (leave_message 9 (socks lobby 1)) = ''Dr. Smith has left the channel''"
    by (simp add: lobby_facts leave_message_def template_def demo_sock_def del: One_nat_def)
  from a b c show ?thesis by simp
qed

section \<open>Classification and normalisation of chat messages\<close>

lemma on_chat_guarded:
  "has_identity (socks s c) \<Longrightarrow> truthy channelId \<Longrightarrow>
   on_chat now c kind channelId content attachments s =
     broadcast channelId (Chat (chatMessage now (socks s c) kind channelId content attachments))
       (store_message now channelId (chat_input (socks s c) kind content attachments) s)"
  by (simp add: on_chat_def Let_def)

lemma store_message_keeps:
  "members (store_message now ch m s) k = members s k"
  "is_open (store_message now ch m s) = is_open s"
  by (simp_all add: store_message_def members_def is_open_def Let_def fun_eq_iff)

lemma trace_on_chat:
  "has_identity (socks s c) \<Longrightarrow> truthy channelId \<Longrightarrow>
   trace (on_chat now c kind channelId content attachments s) =
     trace s @
     AddedMessage (fst (addMessageToChannel now channelId
                          (chat_input (socks s c) kind content attachments) (store s))) #
     map (\<lambda>m. Sent m (Chat (chatMessage now (socks s c) kind channelId content attachments)))
         (filter (is_open s) (members s channelId))"
  by (simp add: on_chat_guarded trace_broadcast trace_store_message store_message_keeps)

text \<open>
  Claim C3, as the code has it. A chat frame that passes the guards is stored and
  broadcast with the normalised attachments: an absent or empty sequence becomes no
  attachments at all, and in each attachment a missing or empty type becomes \<open>image\<close>
  and a missing or empty name \<open>file\<close>. Its type is \<open>attachment\<close> exactly when the
  frame's own type is \<^verbatim>\<open>attachment\<close> or the normalised sequence is non-empty; otherwise
  it is \<open>message\<close> in the broadcast frame and \<open>text\<close> in the stored document.
\<close>

theorem chat_classified_by_type_or_attachments:
  assumes "has_identity (socks s c)" and "truthy channelId"
  shows "\<exists>msg saved.
           trace (on_chat now c kind channelId content attachments s) =
             trace s @ AddedMessage saved #
             map (\<lambda>m. Sent m (Chat msg)) (filter (is_open s) (members s channelId))
         \<and> cm_attachments msg =
             (case attachments of
                None \<Rightarrow> None
              | Some as \<Rightarrow> if as = [] then None else Some (map formatAttachment as))
         \<and> cm_type msg =
             (if kind = KAttachment \<or> has_attachments (cm_attachments msg)
              then ''attachment'' else ''message'')
         \<and> (case saved of
               None \<Rightarrow> db_fails (store s)
             | Some m \<Rightarrow>
                 sm_attachments m = cm_attachments msg \<and>
                 sm_type m =
                   (if kind = KAttachment \<or> has_attachments (sm_attachments m)
                    then ''attachment'' else ''text''))
         \<and> (\<forall>a. att_type (formatAttachment a) =
                   (case in_type a of None \<Rightarrow> ''image'' | Some t \<Rightarrow> if t = [] then ''image'' else t)
                \<and> att_name (formatAttachment a) =
                   (case in_name a of None \<Rightarrow> ''file'' | Some n \<Rightarrow> if n = [] then ''file'' else n))"
proof -
  let ?msg = "chatMessage now (socks s c) kind channelId content attachments"
  let ?saved = "fst (addMessageToChannel now channelId
                       (chat_input (socks s c) kind content attachments) (store s))"
  have norm: "formattedAttachments attachments =
             (case attachments of
                None \<Rightarrow> None
              | Some as \<Rightarrow> if as = [] then None else Some (map formatAttachment as))"
    by (simp add: formattedAttachments_def has_attachments_def split: option.splits)
  have nonempty: "has_attachments (formattedAttachments attachments) = has_attachments attachments"
    by (simp add: formattedAttachments_def has_attachments_def split: option.splits)
  have a: "trace (on_chat now c kind channelId content attachments s) =
             trace s @ AddedMessage ?saved #
             map (\<lambda>m. Sent m (Chat ?msg)) (filter (is_open s) (members s channelId))"
    using assms by (rule trace_on_chat)
  have b: "cm_attachments ?msg =
             (case attachments of
                None \<Rightarrow> None
              | Some as \<Rightarrow> if as = [] then None else Some (map formatAttachment as))"
    by (simp add: chatMessage_def norm)
  have c: "cm_type ?msg =
             (if kind = KAttachment \<or> has_attachments (cm_attachments ?msg)
              then ''attachment'' else ''message'')"
    by (simp add: chatMessage_def isAttachment_def nonempty)
  have d: "(case ?saved of
               None \<Rightarrow> db_fails (store s)
             | Some m \<Rightarrow>
                 sm_attachments m = cm_attachments ?msg \<and>
                 sm_type m =
                   (if kind = KAttachment \<or> has_attachments (sm_attachments m)
                    then ''attachment'' else ''text''))"
    by (simp add: saved_message chat_input_def chatMessage_def isAttachment_def nonempty
          or_default_def)
  have e: "\<forall>a. att_type (formatAttachment a) =
                   (case in_type a of None \<Rightarrow> ''image'' | Some t \<Rightarrow> if t = [] then ''image'' else t)
                \<and> att_name (formatAttachment a) =
                   (case in_name a of None \<Rightarrow> ''file'' | Some n \<Rightarrow> if n = [] then ''file'' else n)"
    by (simp add: formatAttachment_def or_default_def)
  from a b c d e show ?thesis by blast
qed

theorem chat_classified_by_type_or_attachments_witness:
  "\<exists>msg saved.
     trace (on_chat 7 1 KMessage (Some ''C1'') None (Some [demo_scan]) ward) =
       AddedMessage saved # map (\<lambda>m. Sent m (Chat msg)) [1, 2, 3]
     \<and> cm_attachments msg =
         Some [\<lparr>att_type = ''image'', att_url = ''/uploads/ecg.png'', att_name = ''file'',
                att_size = Some 2048, att_mimeType = Some ''image/png'',
                att_thumbnailUrl = None\<rparr>]
     \<and> cm_type msg = ''attachment''"
proof -
  have ident: "has_identity (socks ward 1)"
    by (simp add: demo_defs has_identity_def truthy_def)
  have chan: "truthy (Some ''C1'')"
    by (simp add: truthy_def)
  from chat_classified_by_type_or_attachments [OF ident chan, of 7 KMessage None "Some [demo_scan]"]
  obtain msg saved where
    tr: "trace (on_chat 7 1 KMessage (Some ''C1'') None (Some [demo_scan]) ward) =
           trace ward @ AddedMessage saved #
           map (\<lambda>m. Sent m (Chat msg)) (filter (is_open ward) (members ward (Some ''C1'')))"
    and atts: "cm_attachments msg =
                 (case Some [demo_scan] of
                    None \<Rightarrow> None
                  | Some as \<Rightarrow> if as = [] then None else Some (map formatAttachment as))"
    and ty: "cm_type msg =
              (if KMessage = KAttachment \<or> has_attachments (cm_attachments msg)
               then ''attachment'' else ''message'')"
    by blast
  have recipients: "filter (is_open ward) (members ward (Some ''C1'')) = [1, 2, 3]"
    by (simp add: demo_defs members_def is_open_def)
  have "trace ward = []"
    by (simp add: demo_defs)
  with tr recipients atts ty show ?thesis
    by (simp add: formatAttachment_def demo_scan_def or_default_def has_attachments_def)
qed

text \<open>
  The claim as written fails on a frame of type \<^verbatim>\<open>attachment\<close> that carries no
  attachments: it is stored and broadcast as \<open>attachment\<close> although its normalised
  attachment sequence is empty.
\<close>

theorem attachment_type_without_attachments:
  "trace (on_chat 7 1 KAttachment (Some ''C1'') (Some ''see scan'') None ward) =
     [AddedMessage (Some \<lparr>sm_id = 5, sm_type = ''attachment'', sm_channelId = Some ''C1'',
                          sm_senderId = Some ''e1'', sm_content = Some ''see scan'',
                          sm_attachments = None, sm_createdAt = 7\<rparr>),
      Sent 1 (Chat \<lparr>cm_type = ''attachment'', cm_channelId = Some ''C1'', cm_senderId = ''e1'',
                    cm_senderName = ''Dr. Smith'', cm_content = Some ''see scan'',
                    cm_timestamp = 7, cm_attachments = None\<rparr>),
      Sent 2 (Chat \<lparr>cm_type = ''attachment'', cm_channelId = Some ''C1'', cm_senderId = ''e1'',
                    cm_senderName = ''Dr. Smith'', cm_content = Some ''see scan'',
                    cm_timestamp = 7, cm_attachments = None\<rparr>),
      Sent 3 (Chat \<lparr>cm_type = ''attachment'', cm_channelId = Some ''C1'', cm_senderId = ''e1'',
                    cm_senderName = ''Dr. Smith'', cm_content = Some ''see scan'',
                    cm_timestamp = 7, cm_attachments = None\<rparr>)]"
  by (simp add: on_chat_def broadcast_def store_message_def addMessageToChannel_def chat_input_def
        chatMessage_def isAttachment_def has_attachments_def formattedAttachments_def
        has_identity_def truthy_def identity_str_def sender_opt_def or_default_def members_def
        is_open_def db_fails_def db_tick_def Let_def demo_defs)

section \<open>Frames with missing fields\<close>

lemma channels_on_join:
  "channels (on_join now c channelId patientId uname s) =
     (channels s)(channelId \<mapsto> members s channelId @ [c])"
  by (simp add: on_join_def store_message_def broadcast_def send_status_updates_def
        send_history_def subscribe_def Let_def)

lemma socks_on_join:
  "socks (on_join now c channelId patientId uname s) =
     (socks s)(c := (socks s c)\<lparr>ws_channelId := channelId\<rparr>)"
  by (simp add: on_join_def store_message_def broadcast_def send_status_updates_def
        send_history_def subscribe_def Let_def)

lemma clients_on_join:
  "clients (on_join now c channelId patientId uname s) = clients s"
  "nextConn (on_join now c channelId patientId uname s) = nextConn s"
  by (simp_all add: on_join_def store_message_def broadcast_def send_status_updates_def
        send_history_def subscribe_def Let_def)

text \<open>The cases that test their required fields leave the server as it is.\<close>

lemma guarded_handlers_ignore_missing_fields:
  "on_chat now c kind None content attachments s = s"
  "on_statusUpdate now c None status location details s = s"
  "on_callInvitationResponse now c channelId callType None responderName response s = s"
  "on_callInvitation now c None callType targetUserId inviterId inviterName s = s"
  "on_callInvitation now c channelId callType None inviterId inviterName s = s"
  "on_callSignal c None callType action targetUsers s = s"
  by (simp_all add: on_chat_def on_statusUpdate_def on_callInvitationResponse_def
        on_callInvitation_def on_callSignal_def truthy_def Let_def)

text \<open>
  Claim C4 at a \<^verbatim>\<open>join\<close> frame without \<^verbatim>\<open>channelId\<close>. The \<^verbatim>\<open>join\<close> case tests nothing:
  socket 1 of the ward loses its channel \<open>C1\<close>, a member array is created under the key
  \<^verbatim>\<open>undefined\<close> with the socket in it, a \<^verbatim>\<open>history\<close> frame and a \<^verbatim>\<open>system\<close> frame are sent,
  and a system message without channel is stored.
\<close>

theorem join_without_channelId_runs:
  "trace (on_join 7 1 None None None ward) =
     [Sent 1 (History []),
      Sent 1 (System \<lparr>sy_channelId = None, sy_content = ''undefined has joined the channel'',
                      sy_timestamp = 7\<rparr>),
      AddedMessage (Some \<lparr>sm_id = 5, sm_type = ''system'', sm_channelId = None,
                          sm_senderId = Some ''e1'',
                          sm_content = Some ''undefined has joined the channel'',
                          sm_attachments = None, sm_createdAt = 7\<rparr>)]
   \<and> channels ward None = None
   \<and> channels (on_join 7 1 None None None ward) None = Some [1]
   \<and> ws_channelId (socks ward 1) = Some ''C1''
   \<and> ws_channelId (socks (on_join 7 1 None None None ward) 1) = None"
proof -
  have hist: "getChannelMessages None demo_db = ([], demo_db)"
    by (simp add: getChannelMessages_def db_fails_def db_tick_def demo_db_def demo_msg_def)
  have pat: "getPatientById None demo_db = (False, demo_db)"
    by (simp add: getPatientById_def db_fails_def db_tick_def demo_db_def)
  have st: "store (send_status_updates 1 None (send_history 1 None (subscribe 1 None ward))) = demo_db"
    by (simp add: send_status_updates_def send_history_def subscribe_def Let_def ward_facts hist pat)
  have saved: "fst (addMessageToChannel 7 None
                \<lparr>mi_type = Some ''system'', mi_senderId = Some ''e1'',
                 mi_content = Some ''undefined has joined the channel'',
                 mi_attachments = None\<rparr> demo_db) =
               Some \<lparr>sm_id = 5, sm_type = ''system'', sm_channelId = None,
                          sm_senderId = Some ''e1'',
                          sm_content = Some ''undefined has joined the channel'',
                          sm_attachments = None, sm_createdAt = 7\<rparr>"
    by (simp add: saved_message has_attachments_def db_fails_def demo_db_def or_default_def)
  have sender: "sender_opt (demo_sock (Some ''e1'') (Some ''Dr. Smith'') (Some ''C1'') True) =
                  Some ''e1''"
    by (simp add: sender_opt_def demo_sock_def truthy_def)
  have a: "trace (on_join 7 1 None None None ward) =
     [Sent 1 (History []),
      Sent 1 (System \<lparr>sy_channelId = None, sy_content = ''undefined has joined the channel'',
                      sy_timestamp = 7\<rparr>),
      AddedMessage (Some \<lparr>sm_id = 5, sm_type = ''system'', sm_channelId = None,
                          sm_senderId = Some ''e1'',
                          sm_content = Some ''undefined has joined the channel'',
                          sm_attachments = None, sm_createdAt = 7\<rparr>)]"
    by (simp add: trace_on_join ward_facts hist pat st sender template_def saved join_message_def
          del: One_nat_def)
  have b: "channels ward None = None"
    by (simp add: ward_def)
  have c: "channels (on_join 7 1 None None None ward) None = Some [1]"
    by (simp add: channels_on_join ward_facts)
  have d: "ws_channelId (socks ward 1) = Some ''C1''"
    by (simp add: ward_facts demo_sock_def)
  have e: "ws_channelId (socks (on_join 7 1 None None None ward) 1) = None"
    by (simp add: socks_on_join)
  from a b c d e show ?thesis by simp
qed

section \<open>Call invitations\<close>

lemma fold_last_match:
  "fold (\<lambda>x found. if P x then Some x else found) xs a =
     (if filter P xs = [] then a else Some (last (filter P xs)))"
  by (induction xs arbitrary: a) auto

lemma find_client_last:
  "find_client s ident =
     (let ms = filter (\<lambda>cl. is_open s cl \<and> id_matches (socks s cl) ident) (clients s)
      in if ms = [] then None else Some (last ms))"
  by (simp add: find_client_def fold_last_match Let_def)

lemma digits_nonempty: "digits n \<noteq> []"
  by (subst digits.simps) simp

lemma toString_nonempty: "toString i \<noteq> []"
  by (simp add: toString_def digits_nonempty)

lemma identity_str_nonempty: "identity_str w \<noteq> []"
  by (simp add: identity_str_def or_default_def toString_nonempty split: option.splits)

lemma senderEmpId_nonempty: "senderEmpId w inviterId \<noteq> []"
  by (simp add: senderEmpId_def or_default_def identity_str_nonempty split: option.splits)

text \<open>
  Claim C5, as the code has it. A \<^verbatim>\<open>callInvitation\<close> frame with a channel id and a
  target: when some socket of \<^verbatim>\<open>wss.clients\<close> is open and matches the target (by
  \<^verbatim>\<open>empId\<close> or by its stringified numeric id), exactly one \<^verbatim>\<open>callInvitation\<close> frame is
  sent, to one such socket, and nothing else changes; when no open socket matches, the
  server is left as it is, and no frame goes to anyone.
\<close>

theorem callInvitation_reaches_one_open_match:
  assumes "truthy channelId" and "target \<noteq> []"
  shows "if \<exists>cl \<in> set (clients s). is_open s cl \<and> id_matches (socks s cl) target
         then \<exists>t \<in> set (clients s). is_open s t \<and> id_matches (socks s t) target \<and>
                on_callInvitation now c channelId callType (Some target) inviterId inviterName s =
                  s\<lparr>trace := trace s @
                       [Sent t (CallInvitationMsg
                                  (invitationMessage now (socks s c) channelId callType
                                     inviterId inviterName))]\<rparr>
         else on_callInvitation now c channelId callType (Some target) inviterId inviterName s = s"
proof -
  let ?ms = "filter (\<lambda>cl. is_open s cl \<and> id_matches (socks s cl) target) (clients s)"
  show ?thesis
  proof (cases "?ms = []")
    case True
    then have none: "\<not> (\<exists>cl \<in> set (clients s). is_open s cl \<and> id_matches (socks s cl) target)"
      by (auto simp: filter_empty_conv)
    from True have "find_client s target = None"
      by (simp add: find_client_last)
    then have "on_callInvitation now c channelId callType (Some target) inviterId inviterName s = s"
      using assms by (simp add: on_callInvitation_def senderEmpId_nonempty)
    with none show ?thesis by (simp only: if_False)
  next
    case False
    then have "last ?ms \<in> set ?ms"
      by (rule last_in_set)
    then have t: "last ?ms \<in> set (clients s)" "is_open s (last ?ms)"
                 "id_matches (socks s (last ?ms)) target"
      by auto
    then have some: "\<exists>cl \<in> set (clients s). is_open s cl \<and> id_matches (socks s cl) target"
      by blast
    from False have "find_client s target = Some (last ?ms)"
      by (simp add: find_client_last)
    then have "on_callInvitation now c channelId callType (Some target) inviterId inviterName s =
                  s\<lparr>trace := trace s @
                       [Sent (last ?ms) (CallInvitationMsg
                                  (invitationMessage now (socks s c) channelId callType
                                     inviterId inviterName))]\<rparr>"
      using assms by (simp add: on_callInvitation_def senderEmpId_nonempty)
    with t have "\<exists>t \<in> set (clients s). is_open s t \<and> id_matches (socks s t) target \<and>
                on_callInvitation now c channelId callType (Some target) inviterId inviterName s =
                  s\<lparr>trace := trace s @
                       [Sent t (CallInvitationMsg
                                  (invitationMessage now (socks s c) channelId callType
                                     inviterId inviterName))]\<rparr>"
      by blast
    with some show ?thesis by (simp only: if_True)
  qed
qed

lemma ward_matches:
  "id_matches (socks ward t) ''n1234'' = (t = 2)"
  by (simp add: ward_def id_matches_def demo_sock_def new_socket_def truthy_def)

theorem callInvitation_reaches_one_open_match_witness:
  "on_callInvitation 7 1 (Some ''C1'') (Some ''voice'') (Some ''n1234'') None None ward =
     ward\<lparr>trace := [Sent 2 (CallInvitationMsg
                               \<lparr>ci_channelId = Some ''C1'', ci_callType = Some ''voice'',
                                ci_inviterId = ''e1'', ci_inviterName = ''Dr. Smith'',
                                ci_timestamp = 7\<rparr>)]\<rparr>"
proof -
  have chan: "truthy (Some ''C1'')"
    by (simp add: truthy_def)
  have target: "''n1234'' \<noteq> []"
    by simp
  have present: "\<exists>cl \<in> set (clients ward). is_open ward cl \<and> id_matches (socks ward cl) ''n1234''"
    by (simp add: ward_matches ward_facts)
  from callInvitation_reaches_one_open_match [OF chan target, of ward 7 1 "Some ''voice''" None None]
       present
  obtain t where "id_matches (socks ward t) ''n1234''"
    and sent: "on_callInvitation 7 1 (Some ''C1'') (Some ''voice'') (Some ''n1234'') None None ward =
      ward\<lparr>trace := trace ward @
        [Sent t (CallInvitationMsg
                   (invitationMessage 7 (socks ward 1) (Some ''C1'') (Some ''voice'') None None))]\<rparr>"
    by (simp only: if_True) blast
  then have "t = 2"
    by (simp add: ward_matches)
  with sent show ?thesis
    by (simp add: ward_facts invitationMessage_def senderEmpId_def identity_str_def or_default_def
          or_else_def truthy_def demo_sock_def)
qed

text \<open>
  The claim as written fails when the only matching socket is registered but no longer
  open (it is closing, or was terminated and has not closed yet): the scan skips it and
  no frame is sent.
\<close>

theorem callInvitation_skips_closing_match:
  "2 \<in> set (clients ward_closing)
   \<and> id_matches (socks ward_closing 2) ''n1234''
   \<and> on_callInvitation 7 1 (Some ''C1'') (Some ''voice'') (Some ''n1234'')
        (Some ''e1'') (Some ''Dr. Smith'') ward_closing = ward_closing"
proof -
  have a: "2 \<in> set (clients ward_closing)"
    by (simp add: ward_closing_def ward_facts)
  have b: "id_matches (socks ward_closing 2) ''n1234''"
    by (simp add: ward_closing_def ward_def id_matches_def demo_sock_def truthy_def)
  have "filter (\<lambda>cl. is_open ward_closing cl \<and> id_matches (socks ward_closing cl) ''n1234'')
          (clients ward_closing) = []"
    by (simp add: ward_closing_def ward_def is_open_def id_matches_def demo_sock_def
          new_socket_def truthy_def)
  then have "find_client ward_closing ''n1234'' = None"
    by (simp add: find_client_last)
  then have c: "on_callInvitation 7 1 (Some ''C1'') (Some ''voice'') (Some ''n1234'')
        (Some ''e1'') (Some ''Dr. Smith'') ward_closing = ward_closing"
    by (simp add: on_callInvitation_def)
  from a b c show ?thesis by simp
qed

section \<open>What each handler leaves untouched\<close>

lemma trace_send_all:
  "trace (send_all f s) = trace s @ map (\<lambda>m. Sent m f) (filter (is_open s) (clients s))"
  by (simp add: send_all_def)

lemma readyOpen_irrelevant [simp]:
  "has_identity (w\<lparr>readyOpen := b\<rparr>) = has_identity w"
  "identity_str (w\<lparr>readyOpen := b\<rparr>) = identity_str w"
  "sender_opt (w\<lparr>readyOpen := b\<rparr>) = sender_opt w"
  "offline_presence now (w\<lparr>readyOpen := b\<rparr>) = offline_presence now w"
  "leave_message now (w\<lparr>readyOpen := b\<rparr>) = leave_message now w"
  by (simp_all add: has_identity_def identity_str_def sender_opt_def offline_presence_def
        leave_message_def)

lemma open_after_unregister:
  "filter (is_open (unregistered c s)) xs = filter (\<lambda>m. m \<noteq> c \<and> is_open s m) xs"
  by (rule filter_cong) (auto simp: unregistered_def is_open_def)

lemma filter_removeAll: "filter (\<lambda>m. m \<noteq> c \<and> P m) (removeAll c xs) = filter (\<lambda>m. m \<noteq> c \<and> P m) xs"
  by (induction xs) auto

lemma filter_remove1_other:
  "filter (\<lambda>m. m \<noteq> c \<and> P m) (remove1 c xs) = filter (\<lambda>m. m \<noteq> c \<and> P m) xs"
  by (induction xs) auto

lemma trace_on_close:
  "trace (on_close now c s) =
     trace s @
     (if has_identity (socks s c)
      then map (\<lambda>m. Sent m (UserStatus (offline_presence now (socks s c))))
               (filter (\<lambda>m. m \<noteq> c \<and> is_open s m) (clients s))
      else []) @
     (if truthy (ws_channelId (socks s c)) \<and> truthy (ws_username (socks s c))
      then map (\<lambda>m. Sent m (System (leave_message now (socks s c))))
               (filter (\<lambda>m. m \<noteq> c \<and> is_open s m) (members s (ws_channelId (socks s c)))) @
           [AddedMessage
              (fst (addMessageToChannel now (ws_channelId (socks s c))
                      \<lparr>mi_type = Some ''system'', mi_senderId = sender_opt (socks s c),
                       mi_content = Some (template (ws_username (socks s c)) @ '' has left the channel''),
                       mi_attachments = None\<rparr> (store s)))]
      else [])"
proof -
  let ?w = "socks s c"
  let ?ch = "ws_channelId ?w"
  define u where "u = unregistered c s"
  have basics: "trace u = trace s" "store u = store s" "channels u = channels s"
               "clients u = removeAll c (clients s)" "socks u c = ?w\<lparr>readyOpen := False\<rparr>"
    by (simp_all add: u_def unregistered_def)
  define s1 where
    "s1 = (if has_identity ?w then send_all (UserStatus (offline_presence now ?w)) u else u)"
  have t1: "trace s1 = trace s @
     (if has_identity ?w
      then map (\<lambda>m. Sent m (UserStatus (offline_presence now ?w)))
               (filter (\<lambda>m. m \<noteq> c \<and> is_open s m) (clients s))
      else [])"
    by (simp add: s1_def trace_send_all basics)
       (simp add: u_def open_after_unregister filter_removeAll)
  have keep1: "is_open s1 = is_open u" "channels s1 = channels s" "store s1 = store s"
    by (simp_all add: s1_def send_all_def is_open_def basics fun_eq_iff)
  define s2 where "s2 = leave_channel c ?ch s1"
  have m2: "members s2 ?ch = remove1 c (members s ?ch)"
    by (simp add: s2_def leave_channel_def members_def keep1 split: option.splits)
  have open2: "is_open s2 = is_open u"
    using keep1(1) by (simp add: s2_def leave_channel_def is_open_def fun_eq_iff)
  have t2: "trace s2 = trace s1" "store s2 = store s"
    by (simp_all add: s2_def leave_channel_def keep1)
  have unfolded: "on_close now c s =
     (if truthy ?ch \<and> truthy (ws_username ?w)
      then store_message now ?ch
             \<lparr>mi_type = Some ''system'', mi_senderId = sender_opt ?w,
              mi_content = Some (template (ws_username ?w) @ '' has left the channel''),
              mi_attachments = None\<rparr>
             (broadcast ?ch (System (leave_message now ?w)) s2)
      else s1)"
    unfolding on_close_def close_listener_def Let_def u_def [symmetric] basics
    by (simp add: s2_def s1_def)
  have st3: "store (broadcast ?ch f s2) = store s" for f
    by (simp add: broadcast_def t2)
  have recipients: "filter (is_open s2) (members s2 ?ch) =
                    filter (\<lambda>m. m \<noteq> c \<and> is_open s m) (members s ?ch)"
    by (simp only: open2 m2 u_def open_after_unregister filter_remove1_other)
  show ?thesis
    by (simp add: unfolded trace_store_message trace_broadcast st3 t2 t1 recipients)
qed


lemma shape_broadcast [simp]:
  "clients (broadcast ch f s) = clients s" "socks (broadcast ch f s) = socks s"
  "channels (broadcast ch f s) = channels s" "nextConn (broadcast ch f s) = nextConn s"
  "store (broadcast ch f s) = store s"
  by (simp_all add: broadcast_def)

lemma shape_send_all [simp]:
  "clients (send_all f s) = clients s" "socks (send_all f s) = socks s"
  "channels (send_all f s) = channels s" "nextConn (send_all f s) = nextConn s"
  "store (send_all f s) = store s"
  by (simp_all add: send_all_def)

lemma shape_store_message [simp]:
  "clients (store_message now ch m s) = clients s" "socks (store_message now ch m s) = socks s"
  "channels (store_message now ch m s) = channels s"
  "nextConn (store_message now ch m s) = nextConn s"
  by (simp_all add: store_message_def Let_def)

lemma shape_on_chat [simp]:
  "clients (on_chat now c k ch co a s) = clients s" "socks (on_chat now c k ch co a s) = socks s"
  "channels (on_chat now c k ch co a s) = channels s"
  "nextConn (on_chat now c k ch co a s) = nextConn s"
  by (simp_all add: on_chat_def Let_def)

lemma shape_on_statusUpdate [simp]:
  "clients (on_statusUpdate now c p st l d s) = clients s"
  "socks (on_statusUpdate now c p st l d s) = socks s"
  "channels (on_statusUpdate now c p st l d s) = channels s"
  "nextConn (on_statusUpdate now c p st l d s) = nextConn s"
  by (simp_all add: on_statusUpdate_def Let_def split: option.splits)

lemma shape_on_callInvitationResponse [simp]:
  "clients (on_callInvitationResponse now c ch ct i rn r s) = clients s"
  "socks (on_callInvitationResponse now c ch ct i rn r s) = socks s"
  "channels (on_callInvitationResponse now c ch ct i rn r s) = channels s"
  "nextConn (on_callInvitationResponse now c ch ct i rn r s) = nextConn s"
  by (simp_all add: on_callInvitationResponse_def split: option.splits)

lemma shape_on_callInvitation [simp]:
  "clients (on_callInvitation now c ch ct t i n s) = clients s"
  "socks (on_callInvitation now c ch ct t i n s) = socks s"
  "channels (on_callInvitation now c ch ct t i n s) = channels s"
  "nextConn (on_callInvitation now c ch ct t i n s) = nextConn s"
  by (simp_all add: on_callInvitation_def split: option.splits)

lemma shape_on_userStatus [simp]:
  "clients (on_userStatus now c st ic ts s) = clients s"
  "socks (on_userStatus now c st ic ts s) = socks s"
  "channels (on_userStatus now c st ic ts s) = channels s"
  "nextConn (on_userStatus now c st ic ts s) = nextConn s"
  by (simp_all add: on_userStatus_def Let_def)

lemma shape_on_callSignal [simp]:
  "clients (on_callSignal c ch ct a tu s) = clients s"
  "socks (on_callSignal c ch ct a tu s) = socks s"
  "channels (on_callSignal c ch ct a tu s) = channels s"
  "nextConn (on_callSignal c ch ct a tu s) = nextConn s"
  by (simp_all add: on_callSignal_def Let_def split: option.splits)

lemma shape_on_auth [simp]:
  "clients (on_auth now c e u n s) = clients s"
  "channels (on_auth now c e u n s) = channels s"
  "nextConn (on_auth now c e u n s) = nextConn s"
  "socks (on_auth now c e u n s) = (socks s)(c := bind_identity e u n (socks s c))"
  by (simp_all add: on_auth_def Let_def)

lemma bind_identity_keeps [simp]:
  "ws_isAlive (bind_identity e u n w) = ws_isAlive w"
  "readyOpen (bind_identity e u n w) = readyOpen w"
  "ws_channelId (bind_identity e u n w) = ws_channelId w"
  by (simp_all add: bind_identity_def)

lemma on_message_registry:
  "clients (on_message now c d s) = clients s"
  "nextConn (on_message now c d s) = nextConn s"
  by (cases d; simp add: clients_on_join)+

lemma on_message_liveness:
  "ws_isAlive (socks (on_message now c d s) x) = ws_isAlive (socks s x)"
  "readyOpen (socks (on_message now c d s) x) = readyOpen (socks s x)"
  by (cases d; simp add: socks_on_join)+

section \<open>Liveness sweeps\<close>

lemma shape_heartbeat_one [simp]:
  "clients (heartbeat_one x s) = clients s" "channels (heartbeat_one x s) = channels s"
  "nextConn (heartbeat_one x s) = nextConn s" "store (heartbeat_one x s) = store s"
  by (simp_all add: heartbeat_one_def)

lemma socks_heartbeat_one:
  "socks (heartbeat_one x s) c =
     (if c = x then (if ws_isAlive (socks s x) then (socks s x)\<lparr>ws_isAlive := False\<rparr>
                     else (socks s x)\<lparr>readyOpen := False\<rparr>)
      else socks s c)"
  by (simp add: heartbeat_one_def)

lemma trace_heartbeat_one:
  "trace (heartbeat_one x s) =
     trace s @ [if ws_isAlive (socks s x) then Pinged x else Terminated x]"
  by (simp add: heartbeat_one_def)

lemma fold_heartbeat_shape [simp]:
  "clients (fold heartbeat_one xs s) = clients s"
  "channels (fold heartbeat_one xs s) = channels s"
  "nextConn (fold heartbeat_one xs s) = nextConn s"
  by (induction xs arbitrary: s) simp_all

lemma fold_heartbeat_distinct:
  "distinct xs \<Longrightarrow>
   trace (fold heartbeat_one xs s) =
     trace s @ map (\<lambda>c. if ws_isAlive (socks s c) then Pinged c else Terminated c) xs
   \<and> (\<forall>c. socks (fold heartbeat_one xs s) c =
          (if c \<in> set xs
           then (if ws_isAlive (socks s c) then (socks s c)\<lparr>ws_isAlive := False\<rparr>
                 else (socks s c)\<lparr>readyOpen := False\<rparr>)
           else socks s c))"
proof (induction xs arbitrary: s)
  case Nil
  then show ?case by simp
next
  case (Cons x xs)
  then have "x \<notin> set xs" "distinct xs" by simp_all
  from Cons.IH [OF \<open>distinct xs\<close>, of "heartbeat_one x s"] \<open>x \<notin> set xs\<close>
  show ?case
    by (auto simp: trace_heartbeat_one socks_heartbeat_one)
qed

lemma fold_heartbeat_stays_dead:
  "\<not> ws_isAlive (socks s c) \<Longrightarrow> \<not> ws_isAlive (socks (fold heartbeat_one xs s) c)"
  by (induction xs arbitrary: s) (simp_all add: socks_heartbeat_one)

lemma fold_heartbeat_marks:
  "c \<in> set xs \<Longrightarrow> \<not> ws_isAlive (socks (fold heartbeat_one xs s) c)"
proof (induction xs arbitrary: s)
  case Nil
  then show ?case by simp
next
  case (Cons x xs)
  show ?case
  proof (cases "c = x")
    case True
    have "\<not> ws_isAlive (socks (heartbeat_one x s) x)"
      by (simp add: socks_heartbeat_one)
    with True show ?thesis
      by (simp add: fold_heartbeat_stays_dead)
  next
    case False
    with Cons show ?thesis by simp
  qed
qed

lemma heartbeat_one_stays_closed:
  "\<not> readyOpen (socks s c) \<Longrightarrow> \<not> readyOpen (socks (heartbeat_one x s) c)"
  by (auto simp: socks_heartbeat_one)

lemma fold_heartbeat_stays_closed:
  "\<not> readyOpen (socks s c) \<Longrightarrow> \<not> readyOpen (socks (fold heartbeat_one xs s) c)"
proof (induction xs arbitrary: s)
  case Nil
  then show ?case by simp
next
  case (Cons x xs)
  from Cons.IH [OF heartbeat_one_stays_closed [OF Cons.prems]] show ?case by simp
qed

lemma fold_heartbeat_extends:
  "\<exists>es. trace (fold heartbeat_one xs s) = trace s @ es"
proof (induction xs arbitrary: s)
  case Nil
  then show ?case by simp
next
  case (Cons x xs)
  from Cons [of "heartbeat_one x s"] obtain es where
    "trace (fold heartbeat_one xs (heartbeat_one x s)) = trace (heartbeat_one x s) @ es"
    by blast
  then show ?case
    by (simp add: trace_heartbeat_one)
qed

lemma fold_heartbeat_terminates:
  "c \<in> set xs \<Longrightarrow> \<not> ws_isAlive (socks s c) \<Longrightarrow>
   \<exists>es. trace (fold heartbeat_one xs s) = trace s @ es \<and> Terminated c \<in> set es"
proof (induction xs arbitrary: s)
  case Nil
  then show ?case by simp
next
  case (Cons x xs)
  let ?s' = "heartbeat_one x s"
  have dead': "\<not> ws_isAlive (socks ?s' c)"
    using Cons.prems(2) by (simp add: socks_heartbeat_one)
  show ?case
  proof (cases "c \<in> set xs")
    case True
    from Cons.IH [OF True dead'] obtain es where
      "trace (fold heartbeat_one xs ?s') = trace ?s' @ es" "Terminated c \<in> set es"
      by blast
    then show ?thesis
      by (simp add: trace_heartbeat_one)
  next
    case False
    with Cons.prems(1) have "c = x" by simp
    obtain es where "trace (fold heartbeat_one xs ?s') = trace ?s' @ es"
      using fold_heartbeat_extends by blast
    with \<open>c = x\<close> Cons.prems(2) show ?thesis
      by (simp add: trace_heartbeat_one)
  qed
qed

lemma fold_heartbeat_closes:
  "c \<in> set xs \<Longrightarrow> \<not> ws_isAlive (socks s c) \<Longrightarrow>
   \<not> readyOpen (socks (fold heartbeat_one xs s) c)"
proof (induction xs arbitrary: s)
  case Nil
  then show ?case by simp
next
  case (Cons x xs)
  let ?s' = "heartbeat_one x s"
  have dead': "\<not> ws_isAlive (socks ?s' c)"
    using Cons.prems(2) by (simp add: socks_heartbeat_one)
  show ?case
  proof (cases "c = x")
    case True
    with Cons.prems(2) have "\<not> readyOpen (socks ?s' c)"
      by (simp add: socks_heartbeat_one)
    then show ?thesis
      by (simp add: fold_heartbeat_stays_closed)
  next
    case False
    with Cons.prems(1) have "c \<in> set xs" by simp
    from Cons.IH [OF this dead'] show ?thesis by simp
  qed
qed

lemma heartbeat_terminates_dead:
  assumes "c \<in> set (clients s)" and "\<not> ws_isAlive (socks s c)"
  shows "Terminated c \<in> set (emitted s (heartbeat s))" and "\<not> is_open (heartbeat s) c"
proof -
  from fold_heartbeat_terminates [OF assms] obtain es where
    "trace (heartbeat s) = trace s @ es" "Terminated c \<in> set es"
    unfolding heartbeat_def by blast
  then show "Terminated c \<in> set (emitted s (heartbeat s))"
    by (simp add: emitted_def)
  from fold_heartbeat_closes [OF assms] show "\<not> is_open (heartbeat s) c"
    by (simp add: heartbeat_def is_open_def)
qed

lemma shape_on_connection:
  "clients (on_connection now s) = clients s @ [nextConn s]"
  "nextConn (on_connection now s) = Suc (nextConn s)"
  "channels (on_connection now s) = channels s"
  "c < nextConn s \<Longrightarrow> socks (on_connection now s) c = socks s c"
  by (simp_all add: on_connection_def Let_def)

lemma shape_on_pong:
  "clients (on_pong x s) = clients s" "nextConn (on_pong x s) = nextConn s"
  "channels (on_pong x s) = channels s"
  "c \<noteq> x \<Longrightarrow> socks (on_pong x s) c = socks s c"
  "ws_channelId (socks (on_pong x s) c) = ws_channelId (socks s c)"
  by (simp_all add: on_pong_def)

lemma shape_unregistered:
  "clients (unregistered x s) = removeAll x (clients s)"
  "nextConn (unregistered x s) = nextConn s"
  "channels (unregistered x s) = channels s"
  "socks (unregistered x s) = (socks s)(x := (socks s x)\<lparr>readyOpen := False\<rparr>)"
  by (simp_all add: unregistered_def)

lemma shape_leave_channel [simp]:
  "clients (leave_channel x ch s) = clients s" "nextConn (leave_channel x ch s) = nextConn s"
  "socks (leave_channel x ch s) = socks s" "store (leave_channel x ch s) = store s"
  "trace (leave_channel x ch s) = trace s"
  by (simp_all add: leave_channel_def)

lemma shape_close_listener:
  "clients (close_listener now x s) = clients s"
  "nextConn (close_listener now x s) = nextConn s"
  "socks (close_listener now x s) = socks s"
  by (simp_all add: close_listener_def Let_def)

lemma shape_on_close:
  "clients (on_close now x s) = removeAll x (clients s)"
  "nextConn (on_close now x s) = nextConn s"
  "socks (on_close now x s) = (socks s)(x := (socks s x)\<lparr>readyOpen := False\<rparr>)"
  by (simp_all add: on_close_def shape_close_listener shape_unregistered)

lemma registered_step:
  "registered c s \<Longrightarrow> snd ev \<noteq> Close c \<Longrightarrow> registered c (step ev s)"
proof -
  assume r: "registered c s" and q: "snd ev \<noteq> Close c"
  obtain now e where ev: "ev = (now, e)" by (cases ev)
  from r q show ?thesis
    unfolding ev
    by (cases e)
       (auto simp: registered_def shape_on_connection on_message_registry shape_on_pong
          shape_on_close heartbeat_def)
qed

lemma dead_step:
  "registered c s \<Longrightarrow> \<not> ws_isAlive (socks s c) \<Longrightarrow> snd ev \<noteq> PongEv c \<Longrightarrow>
   \<not> ws_isAlive (socks (step ev s) c)"
proof -
  assume r: "registered c s" and d: "\<not> ws_isAlive (socks s c)" and q: "snd ev \<noteq> PongEv c"
  obtain now e where ev: "ev = (now, e)" by (cases ev)
  from r d q show ?thesis
    unfolding ev
    by (cases e)
       (auto simp: registered_def shape_on_connection on_message_liveness shape_on_pong
          shape_on_close heartbeat_def fold_heartbeat_stays_dead)
qed

lemma quiet_run:
  "quiet c evs \<Longrightarrow> registered c s \<Longrightarrow>
   registered c (run evs s) \<and>
   (\<not> ws_isAlive (socks s c) \<longrightarrow> \<not> ws_isAlive (socks (run evs s) c))"
proof (induction evs arbitrary: s)
  case Nil
  then show ?case by (simp add: run_def)
next
  case (Cons ev evs)
  then have q: "snd ev \<noteq> PongEv c" "snd ev \<noteq> Close c" "quiet c evs"
    by (simp_all add: quiet_def)
  have r: "registered c (step ev s)"
    using Cons.prems(2) q(2) by (rule registered_step)
  from Cons.IH [OF q(3) r] dead_step [OF Cons.prems(2) _ q(1)]
  show ?case
    by (auto simp: run_def)
qed


lemma emitted_on_close:
  "emitted s (on_close now c s) =
     (if has_identity (socks s c)
      then map (\<lambda>m. Sent m (UserStatus (offline_presence now (socks s c))))
               (filter (\<lambda>m. m \<noteq> c \<and> is_open s m) (clients s))
      else []) @
     (if truthy (ws_channelId (socks s c)) \<and> truthy (ws_username (socks s c))
      then map (\<lambda>m. Sent m (System (leave_message now (socks s c))))
               (filter (\<lambda>m. m \<noteq> c \<and> is_open s m) (members s (ws_channelId (socks s c)))) @
           [AddedMessage
              (fst (addMessageToChannel now (ws_channelId (socks s c))
                      \<lparr>mi_type = Some ''system'', mi_senderId = sender_opt (socks s c),
                       mi_content = Some (template (ws_username (socks s c)) @ '' has left the channel''),
                       mi_attachments = None\<rparr> (store s)))]
      else [])"
  by (simp add: emitted_def trace_on_close)

lemma offline_only_with_identity:
  "\<not> has_identity (socks s c) \<Longrightarrow> Sent m (UserStatus p) \<notin> set (emitted s (on_close now c s))"
  by (auto simp: emitted_on_close)

lemma offline_to_every_open_client:
  "has_identity (socks s c) \<Longrightarrow> m \<in> set (clients s) \<Longrightarrow> m \<noteq> c \<Longrightarrow> is_open s m \<Longrightarrow>
   Sent m (UserStatus (offline_presence now (socks s c))) \<in> set (emitted s (on_close now c s))"
  by (auto simp: emitted_on_close)

lemma unanswered_ping_terminates:
  assumes "registered c s" and "quiet c evs0" and "quiet c evs1"
  shows "Terminated c \<in>
          set (emitted (run ((tp, PongEv c) # evs0 @ (t1, Sweep) # evs1) s)
                 (step (t2, Sweep) (run ((tp, PongEv c) # evs0 @ (t1, Sweep) # evs1) s)))"
    and "\<not> is_open (step (t2, Sweep) (run ((tp, PongEv c) # evs0 @ (t1, Sweep) # evs1) s)) c"
proof -
  define s1 where "s1 = run ((tp, PongEv c) # evs0 @ (t1, Sweep) # evs1) s"
  let ?a = "step (tp, PongEv c) s"
  have ra: "registered c ?a"
    using assms(1) by (rule registered_step) simp
  let ?b = "run evs0 ?a"
  have rb: "registered c ?b"
    using quiet_run [OF assms(2) ra] by simp
  let ?c = "step (t1, Sweep) ?b"
  have rc: "registered c ?c"
    using rb by (rule registered_step) simp
  from rb have "c \<in> set (clients ?b)"
    by (simp add: registered_def)
  then have dc: "\<not> ws_isAlive (socks ?c c)"
    by (simp add: heartbeat_def fold_heartbeat_marks)
  have s1: "s1 = run evs1 ?c"
    by (simp add: s1_def run_def)
  from quiet_run [OF assms(3) rc] dc
  have "registered c s1" "\<not> ws_isAlive (socks s1 c)"
    by (simp_all add: s1)
  then have "c \<in> set (clients s1)" "\<not> ws_isAlive (socks s1 c)"
    by (simp_all add: registered_def)
  then have fin: "Terminated c \<in> set (emitted s1 (step (t2, Sweep) s1))"
    "\<not> is_open (step (t2, Sweep) s1) c"
    by (simp_all add: heartbeat_terminates_dead)
  from fin(1) show "Terminated c \<in>
          set (emitted (run ((tp, PongEv c) # evs0 @ (t1, Sweep) # evs1) s)
                 (step (t2, Sweep) (run ((tp, PongEv c) # evs0 @ (t1, Sweep) # evs1) s)))"
    unfolding s1_def .
  from fin(2) show
    "\<not> is_open (step (t2, Sweep) (run ((tp, PongEv c) # evs0 @ (t1, Sweep) # evs1) s)) c"
    unfolding s1_def .
qed

text \<open>
  Claim C6, as the code has it. A sweep visits every socket of \<^verbatim>\<open>wss.clients\<close>: one whose
  \<^verbatim>\<open>isAlive\<close> flag is false is terminated, any other has the flag set to false and is
  pinged; a pong sets the flag to true. Hence a registered socket that sends no pong
  between two sweeps (and does not close) is terminated by the second one, whatever
  else happens in between; with the sweeps one \<open>heartbeat_interval\<close> (30000 ms) apart and the last pong
  after the sweep before them, that is less than 60000 ms after the last pong (the timer
  is taken as exact). When the terminated socket then closes, the \<open>offline\<close> presence
  frame, with \<^verbatim>\<open>lastSeen\<close>, goes to every other open socket of \<^verbatim>\<open>wss.clients\<close> if the socket
  has a bound identity; for a socket without identity no presence frame is sent.
\<close>

theorem liveness_sweep:
  "(distinct (clients s) \<longrightarrow>
      emitted s (heartbeat s) =
        map (\<lambda>x. if ws_isAlive (socks s x) then Pinged x else Terminated x) (clients s)
      \<and> (\<forall>x \<in> set (clients s).
            socks (heartbeat s) x =
              (if ws_isAlive (socks s x) then (socks s x)\<lparr>ws_isAlive := False\<rparr>
               else (socks s x)\<lparr>readyOpen := False\<rparr>)))
   \<and> ws_isAlive (socks (on_pong c s) c)
   \<and> (registered c s \<and> quiet c evs0 \<and> quiet c evs1 \<longrightarrow>
        Terminated c \<in>
          set (emitted (run ((tp, PongEv c) # evs0 @ (t1, Sweep) # evs1) s)
                 (step (t2, Sweep) (run ((tp, PongEv c) # evs0 @ (t1, Sweep) # evs1) s)))
        \<and> \<not> is_open (step (t2, Sweep) (run ((tp, PongEv c) # evs0 @ (t1, Sweep) # evs1) s)) c
        \<and> (t1 < tp + heartbeat_interval \<and> t2 = t1 + heartbeat_interval \<longrightarrow> t2 < tp + 60000))
   \<and> (has_identity (socks s c) \<longrightarrow>
        pr_status (offline_presence now (socks s c)) = Some ''offline''
        \<and> pr_lastSeen (offline_presence now (socks s c)) = Some now
        \<and> (\<forall>m \<in> set (clients s). m \<noteq> c \<and> is_open s m \<longrightarrow>
              Sent m (UserStatus (offline_presence now (socks s c)))
                \<in> set (emitted s (on_close now c s))))
   \<and> (\<not> has_identity (socks s c) \<longrightarrow>
        (\<forall>m p. Sent m (UserStatus p) \<notin> set (emitted s (on_close now c s))))"
proof (intro conjI impI)
  assume "distinct (clients s)"
  from fold_heartbeat_distinct [OF this, of s]
  show "emitted s (heartbeat s) =
        map (\<lambda>x. if ws_isAlive (socks s x) then Pinged x else Terminated x) (clients s)"
    and "\<forall>x \<in> set (clients s).
            socks (heartbeat s) x =
              (if ws_isAlive (socks s x) then (socks s x)\<lparr>ws_isAlive := False\<rparr>
               else (socks s x)\<lparr>readyOpen := False\<rparr>)"
    by (simp_all add: heartbeat_def emitted_def)
next
  show "ws_isAlive (socks (on_pong c s) c)"
    by (simp add: on_pong_def)
next
  assume "registered c s \<and> quiet c evs0 \<and> quiet c evs1"
  then have h: "registered c s" "quiet c evs0" "quiet c evs1" by simp_all
  show "Terminated c \<in>
          set (emitted (run ((tp, PongEv c) # evs0 @ (t1, Sweep) # evs1) s)
                 (step (t2, Sweep) (run ((tp, PongEv c) # evs0 @ (t1, Sweep) # evs1) s)))"
    using h by (rule unanswered_ping_terminates)
  show "\<not> is_open (step (t2, Sweep) (run ((tp, PongEv c) # evs0 @ (t1, Sweep) # evs1) s)) c"
    using h by (rule unanswered_ping_terminates)
next
  assume "t1 < tp + heartbeat_interval \<and> t2 = t1 + heartbeat_interval"
  then show "t2 < tp + 60000"
    by (simp add: heartbeat_interval_def)
next
  show "pr_status (offline_presence now (socks s c)) = Some ''offline''"
    and "pr_lastSeen (offline_presence now (socks s c)) = Some now"
    by (simp_all add: offline_presence_def)
next
  assume "has_identity (socks s c)"
  then show "\<forall>m \<in> set (clients s). m \<noteq> c \<and> is_open s m \<longrightarrow>
              Sent m (UserStatus (offline_presence now (socks s c)))
                \<in> set (emitted s (on_close now c s))"
    by (simp add: offline_to_every_open_client)
next
  assume "\<not> has_identity (socks s c)"
  then show "\<forall>m p. Sent m (UserStatus p) \<notin> set (emitted s (on_close now c s))"
    by (simp add: offline_only_with_identity)
qed

theorem liveness_sweep_witness:
  "emitted ward (heartbeat ward) = [Pinged 1, Pinged 2, Terminated 3]
   \<and> Terminated 2 \<in>
       set (emitted (run [(1000, PongEv 2), (20000, Sweep), (25000, Frame 1 TestPing)] ward)
              (step (50000, Sweep)
                 (run [(1000, PongEv 2), (20000, Sweep), (25000, Frame 1 TestPing)] ward)))
   \<and> (50000 :: nat) < 1000 + 60000
   \<and> Sent 1 (UserStatus (offline_presence 7 (socks ward 2)))
       \<in> set (emitted ward (on_close 7 2 ward))"
proof -
  have d: "distinct (clients ward)"
    by (simp add: ward_facts)
  have r: "registered 2 ward"
    by (simp add: registered_def ward_def)
  have q: "quiet 2 []" "quiet 2 [(25000, Frame 1 TestPing)]"
    by (simp_all add: quiet_def)
  have tm: "(20000 :: nat) < 1000 + heartbeat_interval" "(50000 :: nat) = 20000 + heartbeat_interval"
    by (simp_all add: heartbeat_interval_def)
  have ident: "has_identity (socks ward 2)"
    by (simp add: ward_facts demo_sock_def has_identity_def truthy_def)
  have one: "1 \<in> set (clients ward)" "is_open ward 1"
    by (simp_all add: ward_facts)
  have alive: "ws_isAlive (socks ward 1)" "ws_isAlive (socks ward 2)" "\<not> ws_isAlive (socks ward 3)"
    by (simp_all add: ward_facts demo_sock_def)
  from liveness_sweep [where s = ward and c = 2 and ?evs0.0 = "[]"
         and ?evs1.0 = "[(25000, Frame 1 TestPing)]" and tp = 1000 and ?t1.0 = 20000
         and ?t2.0 = 50000 and now = 7]
       d r q tm ident one alive
  show ?thesis
    by (simp add: ward_facts(3) del: One_nat_def)
qed

text \<open>
  The claim as written fails for a socket that never authenticated: socket 3 of the
  ward has not answered the last ping, the sweep terminates it, it closes, and the open
  sockets 1 and 2 are sent no \<open>offline\<close> presence frame (nor anything else).
\<close>

theorem anonymous_socket_terminated_without_presence:
  "3 \<in> set (clients ward) \<and> \<not> ws_isAlive (socks ward 3) \<and> is_open ward 1 \<and> is_open ward 2
   \<and> trace (run [(30000, Sweep), (30010, Close 3)] ward) = [Pinged 1, Pinged 2, Terminated 3]"
proof -
  have d: "distinct (clients ward)"
    by (simp add: ward_facts)
  have alive: "ws_isAlive (socks ward 1)" "ws_isAlive (socks ward 2)" "\<not> ws_isAlive (socks ward 3)"
    by (simp_all add: ward_facts demo_sock_def)
  from fold_heartbeat_distinct [OF d, of ward] alive
  have swept: "trace (heartbeat ward) = [Pinged 1, Pinged 2, Terminated 3]"
    and three: "socks (heartbeat ward) 3 = (socks ward 3)\<lparr>readyOpen := False\<rparr>"
    by (simp_all add: heartbeat_def ward_facts(1,3) del: One_nat_def)
  have anon: "\<not> has_identity (socks (heartbeat ward) 3)"
             "\<not> truthy (ws_username (socks (heartbeat ward) 3))"
    by (simp_all add: three ward_facts demo_sock_def has_identity_def truthy_def truthy_num_def)
  have closed: "trace (on_close 30010 3 (heartbeat ward)) = trace (heartbeat ward)"
    using anon by (simp add: trace_on_close)
  have reg: "3 \<in> set (clients (heartbeat ward))"
    by (simp add: heartbeat_def ward_facts)
  have "trace (run [(30000, Sweep), (30010, Close 3)] ward) = [Pinged 1, Pinged 2, Terminated 3]"
    using reg by (simp add: run_def closed swept)
  with alive show ?thesis
    by (simp add: ward_facts)
qed

section \<open>Closing a socket\<close>

lemma channels_close_listener:
  "channels (close_listener now c s) =
     (if truthy (ws_channelId (socks s c)) \<and> truthy (ws_username (socks s c))
      then channels (leave_channel c (ws_channelId (socks s c)) s)
      else channels s)"
  by (simp add: close_listener_def Let_def leave_channel_def split: option.splits)

lemma members_leave_channel:
  "members (leave_channel c ch s) k = (if k = ch then remove1 c (members s k) else members s k)"
  by (simp add: leave_channel_def members_def split: option.splits)

lemma members_on_close:
  "members (on_close now c s) k =
     (if truthy (ws_channelId (socks s c)) \<and> truthy (ws_username (socks s c))
         \<and> k = ws_channelId (socks s c)
      then remove1 c (members s k) else members s k)"
proof -
  have eq: "members (on_close now c s) k =
        (if truthy (ws_channelId (socks s c)) \<and> truthy (ws_username (socks s c))
         then members (leave_channel c (ws_channelId (socks s c)) (unregistered c s)) k
         else members (unregistered c s) k)"
    by (simp add: on_close_def members_def channels_close_listener shape_unregistered)
  have un: "members (unregistered c s) k = members s k" for k
    by (simp add: members_def shape_unregistered)
  have lv: "members (leave_channel c ch (unregistered c s)) k =
        (if k = ch then remove1 c (members s k) else members s k)" for ch
    by (simp add: members_leave_channel un)
  show ?thesis
    by (simp only: eq lv un) auto
qed

text \<open>
  Claim C9, as the code has it. When a socket closes it leaves \<^verbatim>\<open>wss.clients\<close>. If it has
  a channel and a username, its first entry in the member list of that channel is
  removed, and no other member list changes; without a username (a socket that joined
  but never authenticated) or without a channel, no member list changes. If it has a
  bound identity, the \<open>offline\<close> presence frame, with \<^verbatim>\<open>lastSeen\<close>, is sent first, to
  every other open socket of \<^verbatim>\<open>wss.clients\<close>, and no other presence frame follows; if it
  has none, no presence frame is sent.
\<close>

theorem close_prunes_and_announces:
  "clients (on_close now c s) = removeAll c (clients s)
   \<and> (\<forall>k. members (on_close now c s) k =
          (if truthy (ws_channelId (socks s c)) \<and> truthy (ws_username (socks s c))
              \<and> k = ws_channelId (socks s c)
           then remove1 c (members s k) else members s k))
   \<and> (\<exists>rest. emitted s (on_close now c s) =
          (if has_identity (socks s c)
           then map (\<lambda>m. Sent m (UserStatus (offline_presence now (socks s c))))
                    (filter (\<lambda>m. m \<noteq> c \<and> is_open s m) (clients s))
           else []) @ rest
        \<and> (\<forall>m p. Sent m (UserStatus p) \<notin> set rest))
   \<and> pr_status (offline_presence now (socks s c)) = Some ''offline''
   \<and> pr_lastSeen (offline_presence now (socks s c)) = Some now"
proof (intro conjI allI)
  show "clients (on_close now c s) = removeAll c (clients s)"
    by (rule shape_on_close)
next
  fix k
  show "members (on_close now c s) k =
          (if truthy (ws_channelId (socks s c)) \<and> truthy (ws_username (socks s c))
              \<and> k = ws_channelId (socks s c)
           then remove1 c (members s k) else members s k)"
    by (rule members_on_close)
next
  let ?rest = "if truthy (ws_channelId (socks s c)) \<and> truthy (ws_username (socks s c))
      then map (\<lambda>m. Sent m (System (leave_message now (socks s c))))
               (filter (\<lambda>m. m \<noteq> c \<and> is_open s m) (members s (ws_channelId (socks s c)))) @
           [AddedMessage
              (fst (addMessageToChannel now (ws_channelId (socks s c))
                      \<lparr>mi_type = Some ''system'', mi_senderId = sender_opt (socks s c),
                       mi_content = Some (template (ws_username (socks s c)) @ '' has left the channel''),
                       mi_attachments = None\<rparr> (store s)))]
      else []"
  have "emitted s (on_close now c s) =
          (if has_identity (socks s c)
           then map (\<lambda>m. Sent m (UserStatus (offline_presence now (socks s c))))
                    (filter (\<lambda>m. m \<noteq> c \<and> is_open s m) (clients s))
           else []) @ ?rest"
    by (rule emitted_on_close)
  moreover have "\<forall>m p. Sent m (UserStatus p) \<notin> set ?rest"
    by auto
  ultimately show "\<exists>rest. emitted s (on_close now c s) =
          (if has_identity (socks s c)
           then map (\<lambda>m. Sent m (UserStatus (offline_presence now (socks s c))))
                    (filter (\<lambda>m. m \<noteq> c \<and> is_open s m) (clients s))
           else []) @ rest
        \<and> (\<forall>m p. Sent m (UserStatus p) \<notin> set rest)"
    by blast
next
  show "pr_status (offline_presence now (socks s c)) = Some ''offline''"
    and "pr_lastSeen (offline_presence now (socks s c)) = Some now"
    by (simp_all add: offline_presence_def)
qed

theorem close_prunes_and_announces_witness:
  "clients (on_close 7 2 ward) = [1, 3]
   \<and> members (on_close 7 2 ward) (Some ''C1'') = [1, 3]
   \<and> (\<exists>rest. emitted ward (on_close 7 2 ward) =
         [Sent 1 (UserStatus (offline_presence 7 (socks ward 2))),
          Sent 3 (UserStatus (offline_presence 7 (socks ward 2)))] @ rest)
   \<and> pr_lastSeen (offline_presence 7 (socks ward 2)) = Some 7"
proof -
  have ident: "has_identity (socks ward 2)"
    by (simp add: ward_facts demo_sock_def has_identity_def truthy_def)
  have sub: "ws_channelId (socks ward 2) = Some ''C1''" "truthy (Some ''C1'')"
            "truthy (ws_username (socks ward 2))"
    by (simp_all add: ward_facts demo_sock_def truthy_def)
  from close_prunes_and_announces [of 7 2 ward] ident sub
  show ?thesis
    by (simp add: ward_facts) blast
qed

text \<open>
  The claim as written fails for socket 3 of the ward, which joined \<open>C1\<close> without
  authenticating: when it closes, it stays in the member list of \<open>C1\<close> and nothing is
  sent to anyone.
\<close>

theorem anonymous_member_stays_after_close:
  "ws_channelId (socks ward 3) = Some ''C1''
   \<and> members ward (Some ''C1'') = [1, 2, 3]
   \<and> members (on_close 9 3 ward) (Some ''C1'') = [1, 2, 3]
   \<and> emitted ward (on_close 9 3 ward) = []"
proof -
  have anon: "\<not> has_identity (socks ward 3)" "\<not> truthy (ws_username (socks ward 3))"
    by (simp_all add: ward_facts demo_sock_def has_identity_def truthy_def truthy_num_def)
  then show ?thesis
    by (simp add: members_on_close emitted_on_close ward_facts demo_sock_def)
qed

section \<open>Joining twice\<close>

lemma members_on_join:
  "members (on_join now c ch p u s) k = (if k = ch then members s ch @ [c] else members s k)"
  by (simp add: members_def channels_on_join)

lemma is_open_on_join: "is_open (on_join now c ch p u s) = is_open s"
  by (simp add: is_open_def socks_on_join fun_eq_iff)

lemma emitted_broadcast:
  "emitted s (broadcast ch f s) = map (\<lambda>m. Sent m f) (filter (is_open s) (members s ch))"
  by (simp add: emitted_def trace_broadcast)

lemma count_sent:
  "count_list (map (\<lambda>m. Sent m f) xs) (Sent c f) = count_list xs c"
  by (induction xs) auto

lemma count_filter:
  "count_list (filter P xs) c = (if P c then count_list xs c else 0)"
  by (induction xs) auto

text \<open>
  Claim C8. Two \<^verbatim>\<open>join\<close> frames of one socket for one channel push the socket twice on
  the channel's member array, and a broadcast to the channel then sends the frame to
  the socket, while it is open, once for every entry it has: twice more than before
  the two joins, so exactly twice for a socket that was not a member.
\<close>

theorem join_twice_delivers_twice:
  assumes "is_open s c"
  shows "members (on_join now2 c channelId p2 u2 (on_join now1 c channelId p1 u1 s)) channelId =
           members s channelId @ [c, c]
         \<and> count_list
             (emitted (on_join now2 c channelId p2 u2 (on_join now1 c channelId p1 u1 s))
                (broadcast channelId f
                   (on_join now2 c channelId p2 u2 (on_join now1 c channelId p1 u1 s))))
             (Sent c f) =
           count_list (members s channelId) c + 2"
proof -
  let ?s2 = "on_join now2 c channelId p2 u2 (on_join now1 c channelId p1 u1 s)"
  have m: "members ?s2 channelId = members s channelId @ [c, c]"
    by (simp add: members_on_join)
  have o: "is_open ?s2 c"
    using assms by (simp add: is_open_on_join)
  have "count_list (emitted ?s2 (broadcast channelId f ?s2)) (Sent c f) =
        count_list (members ?s2 channelId) c"
    using o by (simp add: emitted_broadcast count_sent count_filter)
  with m show ?thesis by simp
qed

theorem join_twice_delivers_twice_witness:
  "members (on_join 8 1 (Some ''C1'') None None (on_join 7 1 (Some ''C1'') None None lobby))
     (Some ''C1'') = [1, 1]
   \<and> count_list
       (emitted (on_join 8 1 (Some ''C1'') None None (on_join 7 1 (Some ''C1'') None None lobby))
          (broadcast (Some ''C1'') (System (join_message 9 (Some ''C1'') None))
             (on_join 8 1 (Some ''C1'') None None (on_join 7 1 (Some ''C1'') None None lobby))))
       (Sent 1 (System (join_message 9 (Some ''C1'') None))) = 2"
proof -
  have o: "is_open lobby 1"
    by (simp add: lobby_def is_open_def ward_def demo_sock_def)
  have m: "members lobby (Some ''C1'') = []"
    by (simp add: lobby_def members_def)
  from join_twice_delivers_twice [OF o, of 8 "Some ''C1''" None None 7 None None "System (join_message 9 (Some ''C1'') None)"] m
  show ?thesis by simp
qed

section \<open>Joining a second channel\<close>

lemma count_remove1:
  "count_list (remove1 x xs) c =
     (if x = c \<and> c \<in> set xs then count_list xs c - 1 else count_list xs c)"
  by (induction xs) auto

lemma listed_iff_count: "c \<in> set xs \<longleftrightarrow> 0 < count_list xs c"
  using count_list_0_iff [of xs c] by auto

lemma channelId_heartbeat:
  "ws_channelId (socks (fold heartbeat_one xs s) c) = ws_channelId (socks s c)"
  by (induction xs arbitrary: s) (simp_all add: socks_heartbeat_one)

lemma entry_kept_connect:
  "entry_kept c a s \<Longrightarrow> entry_kept c a (on_connection now s)"
  by (auto simp: entry_kept_def members_def shape_on_connection)

lemma channelId_on_join:
  "ws_channelId (socks (on_join now x ch p u s) c) =
     (if c = x then ch else ws_channelId (socks s c))"
  by (simp add: socks_on_join)

lemma entry_kept_join:
  assumes "entry_kept c a s"
  shows "entry_kept c a (on_join now x ch p u s)"
proof -
  from assms have listed: "0 < count_list (members s a) c"
    by (simp add: entry_kept_def listed_iff_count)
  have nc: "c < nextConn (on_join now x ch p u s)"
    using assms by (simp add: entry_kept_def clients_on_join)
  have still: "0 < count_list (members (on_join now x ch p u s) a) c"
    using listed by (auto simp: members_on_join)
  have twice: "2 \<le> count_list (members (on_join now x ch p u s) a) c"
    if cur: "ws_channelId (socks (on_join now x ch p u s) c) = a"
    and reg: "c \<in> set (clients (on_join now x ch p u s))"
  proof (cases "c = x")
    case True
    with cur have "ch = a" by (simp add: channelId_on_join)
    with True listed show ?thesis
      by (simp add: members_on_join)
  next
    case False
    with cur reg assms have "2 \<le> count_list (members s a) c"
      by (simp add: entry_kept_def channelId_on_join clients_on_join)
    then show ?thesis
      by (auto simp: members_on_join)
  qed
  from nc still twice show ?thesis
    by (simp add: entry_kept_def listed_iff_count)
qed

lemma entry_kept_message:
  assumes "entry_kept c a s"
  shows "entry_kept c a (on_message now x d s)"
proof (cases d)
  case (Join ch p u)
  with assms show ?thesis
    by (simp add: entry_kept_join)
qed (use assms in \<open>auto simp: entry_kept_def members_def\<close>)

lemma entry_kept_pong:
  "entry_kept c a s \<Longrightarrow> entry_kept c a (on_pong x s)"
  by (simp add: entry_kept_def members_def shape_on_pong)

lemma entry_kept_heartbeat:
  "entry_kept c a s \<Longrightarrow> entry_kept c a (heartbeat s)"
  by (simp add: entry_kept_def members_def heartbeat_def channelId_heartbeat)

lemma entry_kept_close:
  assumes "entry_kept c a s" and "x \<in> set (clients s)"
  shows "entry_kept c a (on_close now x s)"
proof (cases "x = c")
  case True
  have gone: "c \<notin> set (clients (on_close now c s))"
    by (simp add: shape_on_close)
  have "0 < count_list (members (on_close now c s) a) c"
  proof (cases "truthy (ws_channelId (socks s c)) \<and> truthy (ws_username (socks s c))
                  \<and> a = ws_channelId (socks s c)")
    case True
    with assms \<open>x = c\<close> have "2 \<le> count_list (members s a) c"
      by (simp add: entry_kept_def)
    with True show ?thesis
      by (simp add: members_on_close count_remove1)
  next
    case False
    with assms(1) show ?thesis
      by (auto simp: members_on_close entry_kept_def listed_iff_count)
  qed
  with gone assms(1) True show ?thesis
    by (simp add: entry_kept_def listed_iff_count shape_on_close)
next
  case False
  then have "count_list (members (on_close now x s) a) c = count_list (members s a) c"
    by (simp add: members_on_close count_remove1)
  with assms(1) False show ?thesis
    by (simp add: entry_kept_def listed_iff_count shape_on_close)
qed

lemma entry_kept_step:
  "entry_kept c a s \<Longrightarrow> entry_kept c a (step ev s)"
proof -
  assume k: "entry_kept c a s"
  obtain now e where ev: "ev = (now, e)" by (cases ev)
  from k show ?thesis
    unfolding ev
    by (cases e)
       (simp_all add: entry_kept_connect entry_kept_message entry_kept_pong entry_kept_heartbeat
          entry_kept_close del: on_message.simps)
qed

lemma entry_kept_run:
  "entry_kept c a s \<Longrightarrow> entry_kept c a (run evs s)"
  by (induction evs arbitrary: s) (simp_all add: run_def entry_kept_step)

lemma entry_kept_after_joins:
  assumes "a \<noteq> b" and "c < nextConn s"
  shows "entry_kept c a (on_join now2 c b p2 u2 (on_join now1 c a p1 u1 s))"
  using assms
  by (simp add: entry_kept_def members_on_join socks_on_join clients_on_join)

text \<open>
  Claim C10. The socket keeps one current channel; a \<^verbatim>\<open>join\<close> for a second channel
  overwrites it and leaves the entry in the first channel's member list. A close
  touches the member list of the socket's current channel only. So after a socket has
  joined \<open>a\<close> and then \<open>b\<close>, it stays listed in \<open>a\<close> through every later run of the
  server (its own rejoining and closing included), and every broadcast to \<open>a\<close> made
  while the socket is open sends it the frame.
\<close>

theorem first_channel_entry_persists:
  assumes "a \<noteq> b" and "c < nextConn s"
  shows "ws_channelId (socks (on_join now2 c b p2 u2 (on_join now1 c a p1 u1 s)) c) = b
     \<and> members (on_join now2 c b p2 u2 (on_join now1 c a p1 u1 s)) a = members s a @ [c]
     \<and> (\<forall>evs. c \<in> set (members (run evs (on_join now2 c b p2 u2 (on_join now1 c a p1 u1 s))) a))
     \<and> (\<forall>evs f.
           is_open (run evs (on_join now2 c b p2 u2 (on_join now1 c a p1 u1 s))) c \<longrightarrow>
           Sent c f \<in>
             set (emitted (run evs (on_join now2 c b p2 u2 (on_join now1 c a p1 u1 s)))
                    (broadcast a f
                       (run evs (on_join now2 c b p2 u2 (on_join now1 c a p1 u1 s))))))
     \<and> (\<forall>now s' k. k \<noteq> ws_channelId (socks s' c) \<longrightarrow>
           members (on_close now c s') k = members s' k)"
proof -
  let ?s2 = "on_join now2 c b p2 u2 (on_join now1 c a p1 u1 s)"
  have kept: "entry_kept c a (run evs ?s2)" for evs
    using entry_kept_after_joins [OF assms] by (rule entry_kept_run)
  have listed: "c \<in> set (members (run evs ?s2) a)" for evs
    using kept [of evs] by (simp add: entry_kept_def)
  have p1: "ws_channelId (socks ?s2 c) = b"
    by (simp add: socks_on_join)
  have p2: "members ?s2 a = members s a @ [c]"
    using assms(1) by (simp add: members_on_join)
  have p4: "Sent c f \<in> set (emitted (run evs ?s2) (broadcast a f (run evs ?s2)))"
    if "is_open (run evs ?s2) c" for evs f
    using that listed [of evs] by (simp add: emitted_broadcast)
  have p5: "members (on_close now c s') k = members s' k"
    if "k \<noteq> ws_channelId (socks s' c)" for now s' k
    using that by (simp add: members_on_close)
  from p1 p2 listed p4 p5 show ?thesis by blast
qed

theorem first_channel_entry_persists_witness:
  "ws_channelId
     (socks (on_join 8 1 (Some ''C2'') None None (on_join 7 1 (Some ''C1'') None None lobby)) 1)
     = Some ''C2''
   \<and> members (on_join 8 1 (Some ''C2'') None None (on_join 7 1 (Some ''C1'') None None lobby))
       (Some ''C1'') = [1]
   \<and> 1 \<in> set (members
                (run [(9, Close 1), (30000, Sweep)]
                   (on_join 8 1 (Some ''C2'') None None
                      (on_join 7 1 (Some ''C1'') None None lobby)))
                (Some ''C1''))"
proof -
  have distinct_channels: "Some ''C1'' \<noteq> Some ''C2''"
    by simp
  have accepted: "1 < nextConn lobby"
    by (simp add: lobby_def ward_def)
  have empty: "members lobby (Some ''C1'') = []"
    by (simp add: lobby_def members_def)
  from first_channel_entry_persists [OF distinct_channels accepted, of 8 None None 7 None None]
       empty
  show ?thesis
    by simp
qed

section \<open>The bound identity\<close>

lemma sender_is_identity:
  "has_identity w \<Longrightarrow> sender_opt w = Some (identity_str w)"
  by (auto simp: has_identity_def sender_opt_def identity_str_def truthy_def truthy_num_def
        or_default_def split: option.splits)

lemma actor_chat:
  assumes "has_identity (socks s c)"
  shows "\<forall>ef \<in> set (emitted s (on_chat now c kind ch content atts s)).
           actor_of ef = None \<or> actor_of ef = Some (identity_str (socks s c))"
proof (cases "truthy ch")
  case True
  from trace_on_chat [OF assms True]
  have "emitted s (on_chat now c kind ch content atts s) =
     AddedMessage (fst (addMessageToChannel now ch
                          (chat_input (socks s c) kind content atts) (store s))) #
     map (\<lambda>m. Sent m (Chat (chatMessage now (socks s c) kind ch content atts)))
         (filter (is_open s) (members s ch))"
    by (simp add: emitted_def)
  then show ?thesis
    using assms
    by (auto simp: saved_message chat_input_def chatMessage_def sender_is_identity)
next
  case False
  then show ?thesis
    by (simp add: on_chat_def emitted_def)
qed

lemma actor_join:
  assumes "has_identity (socks s c)"
  shows "\<forall>ef \<in> set (emitted s (on_join now c ch p u s)).
           actor_of ef = None \<or> actor_of ef = Some (identity_str (socks s c))"
  using assms
  by (auto simp: emitted_def trace_on_join saved_message sender_is_identity)

lemma actor_statusUpdate:
  assumes "has_identity (socks s c)"
  shows "\<forall>ef \<in> set (emitted s (on_statusUpdate now c p st l d s)).
           actor_of ef = None \<or> actor_of ef = Some (identity_str (socks s c))"
  using assms
  by (auto simp: emitted_def on_statusUpdate_def Let_def trace_broadcast addStatusUpdate_def
        statusMessage_def sender_is_identity split: option.splits)

lemma actor_callInvitationResponse:
  "\<forall>ef \<in> set (emitted s (on_callInvitationResponse now c ch ct i rn r s)).
           actor_of ef = None \<or> actor_of ef = Some (identity_str (socks s c))"
  by (auto simp: emitted_def on_callInvitationResponse_def responseMessage_def
        split: option.splits)

lemma actor_callInvitation:
  "\<forall>ef \<in> set (emitted s (on_callInvitation now c ch ct t i n s)).
           actor_of ef = None \<or> actor_of ef = Some (senderEmpId (socks s c) i)"
  by (auto simp: emitted_def on_callInvitation_def invitationMessage_def split: option.splits)

lemma actor_userStatus:
  "\<forall>ef \<in> set (emitted s (on_userStatus now c st ic ts s)).
           actor_of ef = None \<or> actor_of ef = Some (identity_str (socks s c))"
  by (auto simp: emitted_def on_userStatus_def Let_def trace_send_all status_presence_def)

lemma actor_callSignal:
  "\<forall>ef \<in> set (emitted s (on_callSignal c ch ct a tu s)).
           actor_of ef = None \<or> actor_of ef = Some (identity_str (socks s c))"
  by (auto simp: emitted_def on_callSignal_def Let_def trace_broadcast callMessage_def
        split: option.splits)


lemma bind_identity_overwrites:
  "bind_identity e u n (bind_identity e' u' n' w) = bind_identity e u n w"
  by (simp add: bind_identity_def)

lemma identity_str_bound:
  "has_identity w \<Longrightarrow>
   (if truthy (ws_empId w) then ws_empId w = Some (identity_str w)
    else map_option toString (ws_userId w) = Some (identity_str w))"
  using sender_is_identity [of w] by (auto simp: sender_opt_def split: if_splits)

text \<open>
  Claim C7, as the code has it. For a socket with a bound identity (its \<^verbatim>\<open>empId\<close>, or
  else its stringified numeric id), every frame sent and every document stored by the
  handler of one of its inbound frames, other than \<^verbatim>\<open>auth\<close>, carries that identity as
  \<^verbatim>\<open>senderId\<close>, \<^verbatim>\<open>createdBy\<close>, \<^verbatim>\<open>callerId\<close>, \<^verbatim>\<open>responderId\<close> or \<^verbatim>\<open>empId\<close>, whatever the frame
  says; the one exception is \<^verbatim>\<open>callInvitation\<close>, whose \<^verbatim>\<open>inviterId\<close> is the frame's own
  \<^verbatim>\<open>inviterId\<close> when it has a non-empty one, and the bound identity otherwise. Binding
  again overwrites: the same \<^verbatim>\<open>auth\<close> twice leaves the sockets as once, and an earlier
  binding leaves nothing behind.
\<close>

theorem bound_identity_on_effects:
  assumes "has_identity (socks s c)" and "\<forall>e u n. d \<noteq> Auth e u n"
  shows "(\<forall>ef \<in> set (emitted s (on_message now c d s)).
            actor_of ef = None \<or>
            actor_of ef =
              Some (case d of
                      CallInvitationIn ch ct tg inviterId nm \<Rightarrow>
                        (case inviterId of
                           None \<Rightarrow> identity_str (socks s c)
                         | Some i \<Rightarrow> if i = [] then identity_str (socks s c) else i)
                    | _ \<Rightarrow> identity_str (socks s c)))
       \<and> (if truthy (ws_empId (socks s c))
          then ws_empId (socks s c) = Some (identity_str (socks s c))
          else map_option toString (ws_userId (socks s c)) = Some (identity_str (socks s c)))
       \<and> socks (on_auth n2 c e u n (on_auth n1 c e u n s)) = socks (on_auth n1 c e u n s)
       \<and> socks (on_auth n2 c e u n (on_auth n1 c e' u' n' s)) c = bind_identity e u n (socks s c)"
proof (intro conjI)
  show "\<forall>ef \<in> set (emitted s (on_message now c d s)).
            actor_of ef = None \<or>
            actor_of ef =
              Some (case d of
                      CallInvitationIn ch ct tg inviterId nm \<Rightarrow>
                        (case inviterId of
                           None \<Rightarrow> identity_str (socks s c)
                         | Some i \<Rightarrow> if i = [] then identity_str (socks s c) else i)
                    | _ \<Rightarrow> identity_str (socks s c))"
  proof (cases d)
    case (Auth e u n)
    with assms(2) show ?thesis by simp
  next
    case (Join ch p un)
    with actor_join [OF assms(1)] show ?thesis by simp
  next
    case (ChatIn kind ch content atts)
    with actor_chat [OF assms(1)] show ?thesis by simp
  next
    case (StatusUpdateIn p st l dt)
    with actor_statusUpdate [OF assms(1)] show ?thesis by simp
  next
    case (CallInvitationResponseIn ch ct i rid rn r)
    with actor_callInvitationResponse show ?thesis by simp
  next
    case (CallInvitationIn ch ct tg i nm)
    have "senderEmpId (socks s c) i =
            (case i of None \<Rightarrow> identity_str (socks s c)
             | Some j \<Rightarrow> if j = [] then identity_str (socks s c) else j)"
      by (simp add: senderEmpId_def or_default_def)
    with CallInvitationIn actor_callInvitation [of s now c ch ct tg i nm] show ?thesis by simp
  next
    case (UserStatusIn st ic ts)
    with actor_userStatus show ?thesis by simp
  next
    case (CallSignalIn ch ct a tu)
    with actor_callSignal show ?thesis by simp
  next
    case TestPing
    then show ?thesis by (simp add: emitted_def)
  next
    case OtherType
    then show ?thesis by (simp add: emitted_def)
  qed
next
  show "if truthy (ws_empId (socks s c))
        then ws_empId (socks s c) = Some (identity_str (socks s c))
        else map_option toString (ws_userId (socks s c)) = Some (identity_str (socks s c))"
    using assms(1) by (rule identity_str_bound)
next
  show "socks (on_auth n2 c e u n (on_auth n1 c e u n s)) = socks (on_auth n1 c e u n s)"
    by (simp add: bind_identity_overwrites)
next
  show "socks (on_auth n2 c e u n (on_auth n1 c e' u' n' s)) c = bind_identity e u n (socks s c)"
    by (simp add: bind_identity_overwrites)
qed

theorem bound_identity_on_effects_witness:
  "emitted ward (on_message 7 1 (ChatIn KMessage (Some ''C1'') (Some ''hello'') None) ward) \<noteq> []
   \<and> list_all (\<lambda>ef. actor_of ef = None \<or> actor_of ef = Some ''e1'')
        (emitted ward (on_message 7 1 (ChatIn KMessage (Some ''C1'') (Some ''hello'') None) ward))
   \<and> ws_empId (socks ward 1) = Some ''e1''"
proof -
  have ident: "has_identity (socks ward 1)"
    by (simp add: ward_facts demo_sock_def has_identity_def truthy_def)
  have no_auth: "\<forall>e u n. ChatIn KMessage (Some ''C1'') (Some ''hello'') None \<noteq> Auth e u n"
    by simp
  have name: "identity_str (socks ward 1) = ''e1''"
    by (simp add: ward_facts demo_sock_def identity_str_def or_default_def)
  have some: "emitted ward
                (on_message 7 1 (ChatIn KMessage (Some ''C1'') (Some ''hello'') None) ward) \<noteq> []"
    using ident by (simp add: emitted_def trace_on_chat truthy_def)
  have bound: "ws_empId (socks ward 1) = Some ''e1''"
    by (simp add: ward_facts demo_sock_def)
  from bound_identity_on_effects [OF ident no_auth, of 7, THEN conjunct1] name some bound
  show ?thesis
    by (simp add: list_all_iff del: on_message.simps One_nat_def)
qed

text \<open>
  The claim as written fails for \<^verbatim>\<open>callInvitation\<close>: socket 1 of the ward is bound to
  \<open>e1\<close>, its frame names the inviter \<open>e999\<close>, and the frame forwarded to the target
  carries \<open>e999\<close> (and the frame's inviter name).
\<close>

theorem callInvitation_carries_frame_inviterId:
  "identity_str (socks ward 1) = ''e1''
   \<and> on_callInvitation 7 1 (Some ''C1'') (Some ''voice'') (Some ''n1234'')
        (Some ''e999'') (Some ''Mallory'') ward =
       ward\<lparr>trace := [Sent 2 (CallInvitationMsg
                                 \<lparr>ci_channelId = Some ''C1'', ci_callType = Some ''voice'',
                                  ci_inviterId = ''e999'', ci_inviterName = ''Mallory'',
                                  ci_timestamp = 7\<rparr>)]\<rparr>"
proof -
  have name: "identity_str (socks ward 1) = ''e1''"
    by (simp add: ward_facts demo_sock_def identity_str_def or_default_def)
  have "filter (\<lambda>cl. is_open ward cl \<and> id_matches (socks ward cl) ''n1234'') (clients ward) = [2]"
    by (simp add: ward_matches ward_facts)
  then have "find_client ward ''n1234'' = Some 2"
    by (simp add: find_client_last)
  then have "on_callInvitation 7 1 (Some ''C1'') (Some ''voice'') (Some ''n1234'')
        (Some ''e999'') (Some ''Mallory'') ward =
       ward\<lparr>trace := [Sent 2 (CallInvitationMsg
                                 \<lparr>ci_channelId = Some ''C1'', ci_callType = Some ''voice'',
                                  ci_inviterId = ''e999'', ci_inviterName = ''Mallory'',
                                  ci_timestamp = 7\<rparr>)]\<rparr>"
    by (simp add: on_callInvitation_def invitationMessage_def senderEmpId_def or_default_def
          or_else_def truthy_def ward_facts(1))
  with name show ?thesis by simp
qed

end
